theory Spec2Isabelle
  imports Main "HOL-Library.Word"
begin

unbundle bit_operations_syntax

section \<open>Byte streams and codec primitives\<close>

text \<open>
  \<^verbatim>\<open>msProtocol.cpp\<close> serialises every message through the overloaded templates
  \<^verbatim>\<open>write(os, v)\<close> and \<^verbatim>\<open>read(is, v)\<close>. Their header is not part of the sources at
  hand, so this section models them from section 4.1 of the specification. A
  \<^verbatim>\<open>std::ostream\<close> is the list of bytes written so far, a \<^verbatim>\<open>std::istream\<close> the list of
  bytes not yet read; the position of a decoder in an input is the number of bytes it
  has taken off the front.
\<close>

type_synonym byte = "8 word"
type_synonym int32 = "32 word"
type_synonym uint32_t = "32 word"
type_synonym uint64_t = "64 word"
type_synonym ostream = "byte list"
type_synonym istream = "byte list"

datatype error =
    VersionMismatch    \<comment> \<open>\<^verbatim>\<open>std::runtime_error("Protocol version doesn't match")\<close>\<close>
  | DecodeTruncated    \<comment> \<open>the stream ended inside a field (specification, 4.1 and 7)\<close>

text \<open>
  Modelled from the spec: the per-type implementation behind \<^verbatim>\<open>write\<close> and \<^verbatim>\<open>read\<close>
  (absent from the sources). \<open>write_impl\<close> gives the canonical encoding of a value,
  \<open>read_impl\<close> consumes one encoding from the front of the input or fails.
\<close>

record 'a serializer =
  write_impl :: "'a \<Rightarrow> byte list"
  read_impl :: "istream \<Rightarrow> error + ('a \<times> istream)"

text \<open>Modelled from the spec: \<^verbatim>\<open>write(os, v)\<close> appends the encoding of \<open>v\<close> (4.1).
  (Named \<open>write_os\<close>, \<open>write\<close> being a keyword.)\<close>

definition write_os :: "'a serializer \<Rightarrow> ostream \<Rightarrow> 'a \<Rightarrow> ostream" where
  "write_os s os v = os @ write_impl s v"

text \<open>Modelled from the spec: \<^verbatim>\<open>read(is, v)\<close> consumes exactly one encoding, or fails
  with a decode error when the stream is exhausted early (4.1).\<close>

definition read_is :: "'a serializer \<Rightarrow> istream \<Rightarrow> error + ('a \<times> istream)" where
  "read_is s ist = read_impl s ist"

text \<open>The position of a decoder that started on \<open>input\<close> and has \<open>rest\<close> left to read.\<close>

definition tellg :: "istream \<Rightarrow> istream \<Rightarrow> nat" where
  "tellg input rest = length input - length rest"

text \<open>A serializer reads a value back from its own encoding, whatever follows it.\<close>

definition roundtrips :: "'a serializer \<Rightarrow> 'a \<Rightarrow> bool" where
  "roundtrips s v \<longleftrightarrow> (\<forall>rest. read_is s (write_impl s v @ rest) = Inr (v, rest))"

subsection \<open>Fixed-width integers\<close>

text \<open>
  Modelled from the spec: fixed-width integers are written as their bytes (4.1). The
  byte order is an implementation choice (6); little-endian is taken here, a C++
  \<^verbatim>\<open>int\<close> being 32 bits wide.
\<close>

text \<open>Modelled from the spec: the four bytes of a 32-bit integer, lowest first (the
  \<^verbatim>\<open>write\<close> of an \<^verbatim>\<open>int\<close>, an enumeration or a \<^verbatim>\<open>uint32_t\<close>).\<close>

definition le_bytes32 :: "32 word \<Rightarrow> byte list" where
  "le_bytes32 w = [ucast w, ucast (drop_bit 8 w), ucast (drop_bit 16 w), ucast (drop_bit 24 w)]"

text \<open>Modelled from the spec: the 32-bit integer made of four bytes, lowest first.\<close>

definition le_word32 :: "byte \<Rightarrow> byte \<Rightarrow> byte \<Rightarrow> byte \<Rightarrow> 32 word" where
  "le_word32 b0 b1 b2 b3 =
     ucast b0 OR push_bit 8 (ucast b1) OR push_bit 16 (ucast b2) OR push_bit 24 (ucast b3)"

text \<open>Modelled from the spec: the \<^verbatim>\<open>read\<close> of a 32-bit integer; it fails on fewer than
  four bytes.\<close>

fun read_bytes32 :: "istream \<Rightarrow> error + (32 word \<times> istream)" where
  "read_bytes32 (b0 # b1 # b2 # b3 # rest) = Inr (le_word32 b0 b1 b2 b3, rest)"
| "read_bytes32 _ = Inl DecodeTruncated"

text \<open>Modelled from the spec: \<^verbatim>\<open>write\<close> and \<^verbatim>\<open>read\<close> at type \<^verbatim>\<open>int\<close> (and at the
  enumeration types, whose underlying type is \<^verbatim>\<open>int\<close>).\<close>

definition int32_ser :: "int32 serializer" where
  "int32_ser = \<lparr>write_impl = le_bytes32, read_impl = read_bytes32\<rparr>"

text \<open>Modelled from the spec: the eight bytes of a 64-bit integer, lowest first.\<close>

definition le_bytes64 :: "64 word \<Rightarrow> byte list" where
  "le_bytes64 w = le_bytes32 (ucast w) @ le_bytes32 (ucast (drop_bit 32 w))"

text \<open>Modelled from the spec: the \<^verbatim>\<open>read\<close> of a 64-bit integer; it fails on fewer than
  eight bytes.\<close>

fun read_bytes64 :: "istream \<Rightarrow> error + (64 word \<times> istream)" where
  "read_bytes64 (b0 # b1 # b2 # b3 # b4 # b5 # b6 # b7 # rest) =
     Inr (ucast (le_word32 b0 b1 b2 b3) OR push_bit 32 (ucast (le_word32 b4 b5 b6 b7)), rest)"
| "read_bytes64 _ = Inl DecodeTruncated"

text \<open>Modelled from the spec: \<^verbatim>\<open>write\<close> and \<^verbatim>\<open>read\<close> at an unsigned 64-bit type, one
  possible instance for the send timestamp (used in the examples only).\<close>

definition uint64_ser :: "uint64_t serializer" where
  "uint64_ser = \<lparr>write_impl = le_bytes64, read_impl = read_bytes64\<rparr>"

subsection \<open>Strings and sequences\<close>

text \<open>
  Modelled from the spec: strings are length-prefixed and sequences count-prefixed, the
  elements following in order (4.1). The prefix is taken to be an unsigned 32-bit
  integer (the width of every size in \<^verbatim>\<open>msProtocol.h\<close>); a \<^verbatim>\<open>std::string\<close> is its
  sequence of bytes.
\<close>

type_synonym cstring = "byte list"

text \<open>Modelled from the spec: the \<^verbatim>\<open>write\<close> of a \<^verbatim>\<open>std::string\<close>: its length, then
  its bytes.\<close>

definition write_string :: "cstring \<Rightarrow> byte list" where
  "write_string s = le_bytes32 (of_nat (length s)) @ s"

text \<open>Modelled from the spec: the \<^verbatim>\<open>read\<close> of a \<^verbatim>\<open>std::string\<close>: the length, then
  that many bytes; it fails when the stream holds fewer.\<close>

definition read_string :: "istream \<Rightarrow> error + (cstring \<times> istream)" where
  "read_string ist =
     (case read_bytes32 ist of
        Inl e \<Rightarrow> Inl e
      | Inr (n, ist') \<Rightarrow>
          if length ist' < unat n then Inl DecodeTruncated
          else Inr (take (unat n) ist', drop (unat n) ist'))"

text \<open>Modelled from the spec: \<^verbatim>\<open>write\<close> and \<^verbatim>\<open>read\<close> at type \<^verbatim>\<open>std::string\<close>.\<close>

definition string_ser :: "cstring serializer" where
  "string_ser = \<lparr>write_impl = write_string, read_impl = read_string\<rparr>"

text \<open>Modelled from the spec: reading \<open>n\<close> elements one after the other; the first
  element that cannot be read fails the whole read.\<close>

fun read_elements :: "'a serializer \<Rightarrow> nat \<Rightarrow> istream \<Rightarrow> error + ('a list \<times> istream)" where
  "read_elements s 0 ist = Inr ([], ist)"
| "read_elements s (Suc n) ist =
     (case read_is s ist of
        Inl e \<Rightarrow> Inl e
      | Inr (x, ist') \<Rightarrow>
          (case read_elements s n ist' of
             Inl e \<Rightarrow> Inl e
           | Inr (xs, ist'') \<Rightarrow> Inr (x # xs, ist'')))"

text \<open>Modelled from the spec: the \<^verbatim>\<open>write\<close> of a \<^verbatim>\<open>std::vector\<close>: the number of
  elements, then the elements in order.\<close>

definition write_vector :: "'a serializer \<Rightarrow> 'a list \<Rightarrow> byte list" where
  "write_vector s xs = le_bytes32 (of_nat (length xs)) @ concat (map (write_impl s) xs)"

text \<open>Modelled from the spec: the \<^verbatim>\<open>read\<close> of a \<^verbatim>\<open>std::vector\<close>: the count, then
  that many elements.\<close>

definition read_vector :: "'a serializer \<Rightarrow> istream \<Rightarrow> error + ('a list \<times> istream)" where
  "read_vector s ist =
     (case read_bytes32 ist of
        Inl e \<Rightarrow> Inl e
      | Inr (n, ist') \<Rightarrow> read_elements s (unat n) ist')"

text \<open>Modelled from the spec: \<^verbatim>\<open>write\<close> and \<^verbatim>\<open>read\<close> at type \<^verbatim>\<open>std::vector<T>\<close>,
  given those at type \<^verbatim>\<open>T\<close>.\<close>

definition vector_ser :: "'a serializer \<Rightarrow> 'a list serializer" where
  "vector_ser s = \<lparr>write_impl = write_vector s, read_impl = read_vector s\<rparr>"

section \<open>The envelope: \<^verbatim>\<open>ms::Message\<close>\<close>

text \<open>
  \<^verbatim>\<open>Message::serialize\<close> and \<^verbatim>\<open>Message::deserialize\<close> use a fourth member,
  \<^verbatim>\<open>timestamp_send\<close>, whose declaration (and so whose type) is not in the sources: its
  type is the parameter \<open>'ts\<close> and its serializer a parameter \<open>ts\<close> of every function.
  The constant \<^verbatim>\<open>msProtocolVersion\<close> is not in the sources either and is the parameter
  \<open>V\<close> (written \<open>msProtocolVersion\<close> below).
\<close>

record 'ts Message =
  protocol_version :: int32
  session_id :: int32
  message_id :: int32
  timestamp_send :: 'ts

text \<open>
  \<^verbatim>\<open>deserialize\<close> works on an existing object and may throw half-way. Its outcome is
  either \<open>Inr (m', rest)\<close>, the updated object and the unread input, or
  \<open>Inl (e, m', rest)\<close>: the exception, the object as the partial decode left it, and
  the input that was not consumed before the throw.
\<close>

type_synonym 'm result = "(error \<times> 'm \<times> istream) + ('m \<times> istream)"

text \<open>\<^verbatim>\<open>read(is, field)\<close>: decode one value and store it into a member of the object.
  When the read fails, object and stream are reported as they were before it.\<close>

definition read_field :: "'a serializer \<Rightarrow> ('a \<Rightarrow> 'm \<Rightarrow> 'm) \<Rightarrow> 'm \<Rightarrow> istream \<Rightarrow> 'm result" where
  "read_field s store m ist =
     (case read_is s ist of
        Inl e \<Rightarrow> Inl (e, m, ist)
      | Inr (v, ist') \<Rightarrow> Inr (store v m, ist'))"

text \<open>Sequencing of statements: the next statement runs only when nothing was thrown.\<close>

definition and_then :: "'m result \<Rightarrow> ('m \<Rightarrow> istream \<Rightarrow> 'm result) \<Rightarrow> 'm result" where
  "and_then r f = (case r of Inl x \<Rightarrow> Inl x | Inr (m, ist) \<Rightarrow> f m ist)"

definition Message_serialize ::
  "'ts serializer \<Rightarrow> ostream \<Rightarrow> ('ts, 'z) Message_scheme \<Rightarrow> ostream" where
  "Message_serialize ts os m =
     (let os = write_os int32_ser os (protocol_version m);
          os = write_os int32_ser os (session_id m);
          os = write_os int32_ser os (message_id m);
          os = write_os ts os (timestamp_send m)
      in os)"

definition Message_deserialize ::
  "int32 \<Rightarrow> 'ts serializer \<Rightarrow> ('ts, 'z) Message_scheme \<Rightarrow> istream
     \<Rightarrow> ('ts, 'z) Message_scheme result" where
  "Message_deserialize msProtocolVersion ts m ist =
     and_then (read_field int32_ser (\<lambda>v m. m\<lparr>protocol_version := v\<rparr>) m ist) (\<lambda>m ist.
       if protocol_version m \<noteq> msProtocolVersion then Inl (VersionMismatch, m, ist)
       else
         and_then (read_field int32_ser (\<lambda>v m. m\<lparr>session_id := v\<rparr>) m ist) (\<lambda>m ist.
         and_then (read_field int32_ser (\<lambda>v m. m\<lparr>message_id := v\<rparr>) m ist) (\<lambda>m ist.
         read_field ts (\<lambda>v m. m\<lparr>timestamp_send := v\<rparr>) m ist)))"

section \<open>The message kinds\<close>

text \<open>
  Each class of \<^verbatim>\<open>msProtocol.h\<close> extends the envelope record. The members are those
  the functions of \<^verbatim>\<open>msProtocol.cpp\<close> read and write; where two classes use one member
  name, the class name is appended. The copy of \<^verbatim>\<open>msProtocol.h\<close> at hand is older than
  \<^verbatim>\<open>msProtocol.cpp\<close>: it declares no \<^verbatim>\<open>timestamp_send\<close>, a single sequence
  \<^verbatim>\<open>targets\<close> in \<^verbatim>\<open>DeleteMessage\<close>, and \<^verbatim>\<open>type\<close> where the functions use
  \<^verbatim>\<open>query_type\<close> and \<^verbatim>\<open>poll_type\<close>. The functions are what is modelled, so the records
  follow them. The types \<^verbatim>\<open>SceneSettings\<close>, \<^verbatim>\<open>MeshRefineSettings\<close>,
  \<^verbatim>\<open>Scene\<close> and \<^verbatim>\<open>Identifier\<close> are declared outside the sources: they are type
  parameters, and their serializers are parameters of the functions that use them.
\<close>

subsection \<open>\<^verbatim>\<open>Message::Type\<close>\<close>

datatype Type =
    Type_Unknown
  | Type_Get
  | Type_Set
  | Type_Delete
  | Type_Fence
  | Type_Text
  | Type_Screenshot
  | Type_Query
  | Type_Response

text \<open>The classes derived from \<^verbatim>\<open>Message\<close> in \<^verbatim>\<open>msProtocol.h\<close>, in declaration order.\<close>

datatype message_class =
    GetMessage
  | SetMessage
  | DeleteMessage
  | FenceMessage
  | TextMessage
  | ScreenshotMessage
  | QueryMessage
  | ResponseMessage
  | PollMessage

subsection \<open>\<^verbatim>\<open>GetMessage\<close>\<close>

record GetFlags =
  get_transform :: bool
  get_points :: bool
  get_normals :: bool
  get_tangents :: bool
  get_uv0 :: bool
  get_uv1 :: bool
  get_colors :: bool
  get_indices :: bool
  get_material_ids :: bool
  get_bones :: bool
  get_blendshapes :: bool
  apply_culling :: bool

text \<open>
  Modelled from the spec: a bit-flag structure is serialized as its underlying integer
  (4.1), here the \<^verbatim>\<open>uint32_t\<close> unit of the twelve one-bit members, the first member in
  bit 0 and the twenty unused bits zero.
\<close>

definition GetFlags_bits :: "GetFlags \<Rightarrow> uint32_t" where
  "GetFlags_bits f =
     push_bit 0 (of_bool (get_transform f)) OR push_bit 1 (of_bool (get_points f)) OR
     push_bit 2 (of_bool (get_normals f)) OR push_bit 3 (of_bool (get_tangents f)) OR
     push_bit 4 (of_bool (get_uv0 f)) OR push_bit 5 (of_bool (get_uv1 f)) OR
     push_bit 6 (of_bool (get_colors f)) OR push_bit 7 (of_bool (get_indices f)) OR
     push_bit 8 (of_bool (get_material_ids f)) OR push_bit 9 (of_bool (get_bones f)) OR
     push_bit 10 (of_bool (get_blendshapes f)) OR push_bit 11 (of_bool (apply_culling f))"

text \<open>Modelled from the spec: the bit-flag structure held by a 32-bit integer.\<close>

definition GetFlags_of_bits :: "uint32_t \<Rightarrow> GetFlags" where
  "GetFlags_of_bits w =
     \<lparr>get_transform = bit w 0, get_points = bit w 1, get_normals = bit w 2,
      get_tangents = bit w 3, get_uv0 = bit w 4, get_uv1 = bit w 5, get_colors = bit w 6,
      get_indices = bit w 7, get_material_ids = bit w 8, get_bones = bit w 9,
      get_blendshapes = bit w 10, apply_culling = bit w 11\<rparr>"

text \<open>Modelled from the spec: \<^verbatim>\<open>write\<close> and \<^verbatim>\<open>read\<close> at type \<^verbatim>\<open>GetFlags\<close>.\<close>

definition GetFlags_ser :: "GetFlags serializer" where
  "GetFlags_ser =
     \<lparr>write_impl = (\<lambda>f. le_bytes32 (GetFlags_bits f)),
      read_impl = (\<lambda>ist. case read_bytes32 ist of
                            Inl e \<Rightarrow> Inl e
                          | Inr (w, ist') \<Rightarrow> Inr (GetFlags_of_bits w, ist'))\<rparr>"

record ('ts, 'ss, 'rs) GetMessage = "'ts Message" +
  flags :: GetFlags
  scene_settings :: 'ss
  refine_settings :: 'rs
  ready_Get :: bool    \<comment> \<open>\<^verbatim>\<open>std::atomic_bool ready\<close>, non-serializable\<close>

definition GetMessage_serialize ::
  "'ts serializer \<Rightarrow> 'ss serializer \<Rightarrow> 'rs serializer \<Rightarrow> ostream
     \<Rightarrow> ('ts, 'ss, 'rs) GetMessage \<Rightarrow> ostream" where
  "GetMessage_serialize ts ss rs os m =
     (let os = Message_serialize ts os m;
          os = write_os GetFlags_ser os (flags m);
          os = write_os ss os (scene_settings m);
          os = write_os rs os (refine_settings m)
      in os)"

definition GetMessage_deserialize ::
  "int32 \<Rightarrow> 'ts serializer \<Rightarrow> 'ss serializer \<Rightarrow> 'rs serializer
     \<Rightarrow> ('ts, 'ss, 'rs) GetMessage \<Rightarrow> istream \<Rightarrow> ('ts, 'ss, 'rs) GetMessage result" where
  "GetMessage_deserialize msProtocolVersion ts ss rs m ist =
     and_then (Message_deserialize msProtocolVersion ts m ist) (\<lambda>m ist.
     and_then (read_field GetFlags_ser (\<lambda>v m. m\<lparr>flags := v\<rparr>) m ist) (\<lambda>m ist.
     and_then (read_field ss (\<lambda>v m. m\<lparr>scene_settings := v\<rparr>) m ist) (\<lambda>m ist.
     read_field rs (\<lambda>v m. m\<lparr>refine_settings := v\<rparr>) m ist)))"

subsection \<open>\<^verbatim>\<open>SetMessage\<close>\<close>

text \<open>The macros \<^verbatim>\<open>msWrite\<close> and \<^verbatim>\<open>msRead\<close> are not in the sources; they are taken to
  write and read their argument on the stream of the enclosing function.\<close>

record ('ts, 'sc) SetMessage = "'ts Message" +
  scene :: 'sc

definition SetMessage_serialize ::
  "'ts serializer \<Rightarrow> 'sc serializer \<Rightarrow> ostream \<Rightarrow> ('ts, 'sc) SetMessage \<Rightarrow> ostream" where
  "SetMessage_serialize ts sc os m =
     (let os = Message_serialize ts os m;
          os = write_os sc os (scene m)
      in os)"

definition SetMessage_deserialize ::
  "int32 \<Rightarrow> 'ts serializer \<Rightarrow> 'sc serializer \<Rightarrow> ('ts, 'sc) SetMessage \<Rightarrow> istream
     \<Rightarrow> ('ts, 'sc) SetMessage result" where
  "SetMessage_deserialize msProtocolVersion ts sc m ist =
     and_then (Message_deserialize msProtocolVersion ts m ist) (\<lambda>m ist.
     read_field sc (\<lambda>v m. m\<lparr>scene := v\<rparr>) m ist)"

subsection \<open>\<^verbatim>\<open>DeleteMessage\<close>\<close>

record ('ts, 'id) DeleteMessage = "'ts Message" +
  entities :: "'id list"
  materials :: "'id list"
  instances :: "'id list"

definition DeleteMessage_serialize ::
  "'ts serializer \<Rightarrow> 'id serializer \<Rightarrow> ostream \<Rightarrow> ('ts, 'id) DeleteMessage \<Rightarrow> ostream" where
  "DeleteMessage_serialize ts ident os m =
     (let os = Message_serialize ts os m;
          os = write_os (vector_ser ident) os (entities m);
          os = write_os (vector_ser ident) os (materials m);
          os = write_os (vector_ser ident) os (instances m)
      in os)"

definition DeleteMessage_deserialize ::
  "int32 \<Rightarrow> 'ts serializer \<Rightarrow> 'id serializer \<Rightarrow> ('ts, 'id) DeleteMessage \<Rightarrow> istream
     \<Rightarrow> ('ts, 'id) DeleteMessage result" where
  "DeleteMessage_deserialize msProtocolVersion ts ident m ist =
     and_then (Message_deserialize msProtocolVersion ts m ist) (\<lambda>m ist.
     and_then (read_field (vector_ser ident) (\<lambda>v m. m\<lparr>entities := v\<rparr>) m ist) (\<lambda>m ist.
     and_then (read_field (vector_ser ident) (\<lambda>v m. m\<lparr>materials := v\<rparr>) m ist) (\<lambda>m ist.
     read_field (vector_ser ident) (\<lambda>v m. m\<lparr>instances := v\<rparr>) m ist)))"

subsection \<open>\<^verbatim>\<open>FenceMessage\<close>\<close>

datatype FenceType =
    FenceType_Unknown
  | FenceType_SceneBegin
  | FenceType_SceneEnd

text \<open>The value of an enumerator: \<^verbatim>\<open>enum class\<close> without initialisers counts from 0.
  A member of enumeration type holds any value of the underlying \<^verbatim>\<open>int\<close>, and the
  functions below move that value to and from the stream unchecked.\<close>

fun FenceType_value :: "FenceType \<Rightarrow> int32" where
  "FenceType_value FenceType_Unknown = 0"
| "FenceType_value FenceType_SceneBegin = 1"
| "FenceType_value FenceType_SceneEnd = 2"

record 'ts FenceMessage = "'ts Message" +
  type_Fence :: int32

definition FenceMessage_serialize ::
  "'ts serializer \<Rightarrow> ostream \<Rightarrow> 'ts FenceMessage \<Rightarrow> ostream" where
  "FenceMessage_serialize ts os m =
     (let os = Message_serialize ts os m;
          os = write_os int32_ser os (type_Fence m)
      in os)"

definition FenceMessage_deserialize ::
  "int32 \<Rightarrow> 'ts serializer \<Rightarrow> 'ts FenceMessage \<Rightarrow> istream \<Rightarrow> 'ts FenceMessage result" where
  "FenceMessage_deserialize msProtocolVersion ts m ist =
     and_then (Message_deserialize msProtocolVersion ts m ist) (\<lambda>m ist.
     read_field int32_ser (\<lambda>v m. m\<lparr>type_Fence := v\<rparr>) m ist)"

subsection \<open>\<^verbatim>\<open>TextMessage\<close>\<close>

datatype TextType =
    TextType_Normal
  | TextType_Warning
  | TextType_Error

fun TextType_value :: "TextType \<Rightarrow> int32" where
  "TextType_value TextType_Normal = 0"
| "TextType_value TextType_Warning = 1"
| "TextType_value TextType_Error = 2"

record 'ts TextMessage = "'ts Message" +
  text_Text :: cstring
  type_Text :: int32

definition TextMessage_serialize ::
  "'ts serializer \<Rightarrow> ostream \<Rightarrow> 'ts TextMessage \<Rightarrow> ostream" where
  "TextMessage_serialize ts os m =
     (let os = Message_serialize ts os m;
          os = write_os string_ser os (text_Text m);
          os = write_os int32_ser os (type_Text m)
      in os)"

definition TextMessage_deserialize ::
  "int32 \<Rightarrow> 'ts serializer \<Rightarrow> 'ts TextMessage \<Rightarrow> istream \<Rightarrow> 'ts TextMessage result" where
  "TextMessage_deserialize msProtocolVersion ts m ist =
     and_then (Message_deserialize msProtocolVersion ts m ist) (\<lambda>m ist.
     and_then (read_field string_ser (\<lambda>v m. m\<lparr>text_Text := v\<rparr>) m ist) (\<lambda>m ist.
     read_field int32_ser (\<lambda>v m. m\<lparr>type_Text := v\<rparr>) m ist))"

subsection \<open>\<^verbatim>\<open>ScreenshotMessage\<close>\<close>

record 'ts ScreenshotMessage = "'ts Message" +
  ready_Screenshot :: bool    \<comment> \<open>non-serializable\<close>

definition ScreenshotMessage_serialize ::
  "'ts serializer \<Rightarrow> ostream \<Rightarrow> 'ts ScreenshotMessage \<Rightarrow> ostream" where
  "ScreenshotMessage_serialize ts os m = Message_serialize ts os m"

definition ScreenshotMessage_deserialize ::
  "int32 \<Rightarrow> 'ts serializer \<Rightarrow> 'ts ScreenshotMessage \<Rightarrow> istream
     \<Rightarrow> 'ts ScreenshotMessage result" where
  "ScreenshotMessage_deserialize msProtocolVersion ts m ist =
     Message_deserialize msProtocolVersion ts m ist"

subsection \<open>\<^verbatim>\<open>ResponseMessage\<close>\<close>

record 'ts ResponseMessage = "'ts Message" +
  text_Response :: "cstring list"

definition ResponseMessage_serialize ::
  "'ts serializer \<Rightarrow> ostream \<Rightarrow> 'ts ResponseMessage \<Rightarrow> ostream" where
  "ResponseMessage_serialize ts os m =
     (let os = Message_serialize ts os m;
          os = write_os (vector_ser string_ser) os (text_Response m)
      in os)"

definition ResponseMessage_deserialize ::
  "int32 \<Rightarrow> 'ts serializer \<Rightarrow> 'ts ResponseMessage \<Rightarrow> istream \<Rightarrow> 'ts ResponseMessage result" where
  "ResponseMessage_deserialize msProtocolVersion ts m ist =
     and_then (Message_deserialize msProtocolVersion ts m ist) (\<lambda>m ist.
     read_field (vector_ser string_ser) (\<lambda>v m. m\<lparr>text_Response := v\<rparr>) m ist)"

subsection \<open>\<^verbatim>\<open>QueryMessage\<close>\<close>

datatype QueryType =
    QueryType_Unknown
  | QueryType_ClientName
  | QueryType_RootNodes
  | QueryType_AllNodes

fun QueryType_value :: "QueryType \<Rightarrow> int32" where
  "QueryType_value QueryType_Unknown = 0"
| "QueryType_value QueryType_ClientName = 1"
| "QueryType_value QueryType_RootNodes = 2"
| "QueryType_value QueryType_AllNodes = 3"

text \<open>\<^verbatim>\<open>MessagePtr response\<close> is a shared pointer; what it points to plays no part in
  the functions below, so pointers are values of a type parameter \<open>'ptr\<close>.\<close>

record ('ts, 'ptr) QueryMessage = "'ts Message" +
  query_type :: int32
  ready_Query :: bool    \<comment> \<open>non-serializable\<close>
  response :: 'ptr

definition QueryMessage_serialize ::
  "'ts serializer \<Rightarrow> ostream \<Rightarrow> ('ts, 'ptr) QueryMessage \<Rightarrow> ostream" where
  "QueryMessage_serialize ts os m =
     (let os = Message_serialize ts os m;
          os = write_os int32_ser os (query_type m)
      in os)"

definition QueryMessage_deserialize ::
  "int32 \<Rightarrow> 'ts serializer \<Rightarrow> ('ts, 'ptr) QueryMessage \<Rightarrow> istream
     \<Rightarrow> ('ts, 'ptr) QueryMessage result" where
  "QueryMessage_deserialize msProtocolVersion ts m ist =
     and_then (Message_deserialize msProtocolVersion ts m ist) (\<lambda>m ist.
     read_field int32_ser (\<lambda>v m. m\<lparr>query_type := v\<rparr>) m ist)"

subsection \<open>\<^verbatim>\<open>PollMessage\<close>\<close>

datatype PollType =
    PollType_Unknown
  | PollType_SceneUpdate

fun PollType_value :: "PollType \<Rightarrow> int32" where
  "PollType_value PollType_Unknown = 0"
| "PollType_value PollType_SceneUpdate = 1"

record 'ts PollMessage = "'ts Message" +
  poll_type :: int32
  ready_Poll :: bool    \<comment> \<open>non-serializable\<close>

definition PollMessage_serialize ::
  "'ts serializer \<Rightarrow> ostream \<Rightarrow> 'ts PollMessage \<Rightarrow> ostream" where
  "PollMessage_serialize ts os m =
     (let os = Message_serialize ts os m;
          os = write_os int32_ser os (poll_type m)
      in os)"

definition PollMessage_deserialize ::
  "int32 \<Rightarrow> 'ts serializer \<Rightarrow> 'ts PollMessage \<Rightarrow> istream \<Rightarrow> 'ts PollMessage result" where
  "PollMessage_deserialize msProtocolVersion ts m ist =
     and_then (Message_deserialize msProtocolVersion ts m ist) (\<lambda>m ist.
     read_field int32_ser (\<lambda>v m. m\<lparr>poll_type := v\<rparr>) m ist)"

section \<open>Auxiliary notions for stating results\<close>

text \<open>The object \<open>m0\<close> after the four envelope members of \<open>m\<close> were stored into it.\<close>

definition copy_envelope ::
  "('ts, 'a) Message_scheme \<Rightarrow> ('ts, 'b) Message_scheme \<Rightarrow> ('ts, 'b) Message_scheme" where
  "copy_envelope m m0 =
     m0\<lparr>protocol_version := protocol_version m, session_id := session_id m,
        message_id := message_id m, timestamp_send := timestamp_send m\<rparr>"

text \<open>Every outcome \<open>r\<close> of a decode, thrown or not, leaves an object on which the
  observation \<open>f\<close> gives \<open>a\<close>.\<close>

definition keeps :: "('m \<Rightarrow> 'b) \<Rightarrow> 'b \<Rightarrow> 'm result \<Rightarrow> bool" where
  "keeps f a r = (case r of Inl (e, m', rest) \<Rightarrow> f m' = a | Inr (m', rest) \<Rightarrow> f m' = a)"

text \<open>A size function agrees with a serializer on a value (sizes are \<^verbatim>\<open>uint32_t\<close>).\<close>

definition measures :: "('a \<Rightarrow> uint32_t) \<Rightarrow> 'a serializer \<Rightarrow> 'a \<Rightarrow> bool" where
  "measures sz s v \<longleftrightarrow> sz v = of_nat (length (write_impl s v))"

section \<open>\<^verbatim>\<open>getSerializeSize\<close>\<close>

text \<open>
  Modelled from the spec: \<^verbatim>\<open>getSerializeSize\<close>, which \<^verbatim>\<open>msProtocol.h\<close> declares for
  \<^verbatim>\<open>Message\<close> and overrides in each of the nine classes, and which no source file
  defines. The specification (4.2) asks for the byte count the serializer will write;
  the model adds up, in the declared return type \<^verbatim>\<open>uint32_t\<close>, the size of the encoding
  of each member that the class's \<^verbatim>\<open>serialize\<close> writes, in the same order. The sizes of
  the values of the undeclared types are given by parameters \<open>sz_ts\<close>, \<open>sz_ss\<close>,
  \<open>sz_rs\<close>, \<open>sz_sc\<close> and \<open>sz_id\<close>.
\<close>

text \<open>Modelled from the spec: the encoded size of an \<^verbatim>\<open>int\<close> or an enumeration.\<close>

definition ssize_int32 :: "int32 \<Rightarrow> uint32_t" where
  "ssize_int32 v = 4"

text \<open>Modelled from the spec: the encoded size of the bit-flag structure.\<close>

definition ssize_GetFlags :: "GetFlags \<Rightarrow> uint32_t" where
  "ssize_GetFlags f = 4"

text \<open>Modelled from the spec: the encoded size of a string, prefix included.\<close>

definition ssize_string :: "cstring \<Rightarrow> uint32_t" where
  "ssize_string s = 4 + of_nat (length s)"

text \<open>Modelled from the spec: the encoded size of a sequence, prefix included.\<close>

definition ssize_vector :: "('a \<Rightarrow> uint32_t) \<Rightarrow> 'a list \<Rightarrow> uint32_t" where
  "ssize_vector sz xs = 4 + sum_list (map sz xs)"

text \<open>Modelled from the spec: \<^verbatim>\<open>Message::getSerializeSize\<close>, declared in
  \<^verbatim>\<open>msProtocol.h\<close> and defined in no source file.\<close>

definition Message_getSerializeSize ::
  "('ts \<Rightarrow> uint32_t) \<Rightarrow> ('ts, 'z) Message_scheme \<Rightarrow> uint32_t" where
  "Message_getSerializeSize sz_ts m =
     ssize_int32 (protocol_version m) + ssize_int32 (session_id m) +
     ssize_int32 (message_id m) + sz_ts (timestamp_send m)"

text \<open>Modelled from the spec: \<^verbatim>\<open>GetMessage::getSerializeSize\<close>, declared in
  \<^verbatim>\<open>msProtocol.h\<close> and defined in no source file.\<close>

definition GetMessage_getSerializeSize ::
  "('ts \<Rightarrow> uint32_t) \<Rightarrow> ('ss \<Rightarrow> uint32_t) \<Rightarrow> ('rs \<Rightarrow> uint32_t)
     \<Rightarrow> ('ts, 'ss, 'rs) GetMessage \<Rightarrow> uint32_t" where
  "GetMessage_getSerializeSize sz_ts sz_ss sz_rs m =
     Message_getSerializeSize sz_ts m + ssize_GetFlags (flags m) +
     sz_ss (scene_settings m) + sz_rs (refine_settings m)"

text \<open>Modelled from the spec: \<^verbatim>\<open>SetMessage::getSerializeSize\<close>, declared in
  \<^verbatim>\<open>msProtocol.h\<close> and defined in no source file.\<close>

definition SetMessage_getSerializeSize ::
  "('ts \<Rightarrow> uint32_t) \<Rightarrow> ('sc \<Rightarrow> uint32_t) \<Rightarrow> ('ts, 'sc) SetMessage \<Rightarrow> uint32_t" where
  "SetMessage_getSerializeSize sz_ts sz_sc m =
     Message_getSerializeSize sz_ts m + sz_sc (scene m)"

text \<open>Modelled from the spec: \<^verbatim>\<open>DeleteMessage::getSerializeSize\<close>, declared in
  \<^verbatim>\<open>msProtocol.h\<close> and defined in no source file.\<close>

definition DeleteMessage_getSerializeSize ::
  "('ts \<Rightarrow> uint32_t) \<Rightarrow> ('id \<Rightarrow> uint32_t) \<Rightarrow> ('ts, 'id) DeleteMessage \<Rightarrow> uint32_t" where
  "DeleteMessage_getSerializeSize sz_ts sz_id m =
     Message_getSerializeSize sz_ts m + ssize_vector sz_id (entities m) +
     ssize_vector sz_id (materials m) + ssize_vector sz_id (instances m)"

text \<open>Modelled from the spec: \<^verbatim>\<open>FenceMessage::getSerializeSize\<close>, declared in
  \<^verbatim>\<open>msProtocol.h\<close> and defined in no source file.\<close>

definition FenceMessage_getSerializeSize ::
  "('ts \<Rightarrow> uint32_t) \<Rightarrow> 'ts FenceMessage \<Rightarrow> uint32_t" where
  "FenceMessage_getSerializeSize sz_ts m =
     Message_getSerializeSize sz_ts m + ssize_int32 (type_Fence m)"

text \<open>Modelled from the spec: \<^verbatim>\<open>TextMessage::getSerializeSize\<close>, declared in
  \<^verbatim>\<open>msProtocol.h\<close> and defined in no source file.\<close>

definition TextMessage_getSerializeSize ::
  "('ts \<Rightarrow> uint32_t) \<Rightarrow> 'ts TextMessage \<Rightarrow> uint32_t" where
  "TextMessage_getSerializeSize sz_ts m =
     Message_getSerializeSize sz_ts m + ssize_string (text_Text m) + ssize_int32 (type_Text m)"

text \<open>Modelled from the spec: \<^verbatim>\<open>ScreenshotMessage::getSerializeSize\<close>, declared in
  \<^verbatim>\<open>msProtocol.h\<close> and defined in no source file.\<close>

definition ScreenshotMessage_getSerializeSize ::
  "('ts \<Rightarrow> uint32_t) \<Rightarrow> 'ts ScreenshotMessage \<Rightarrow> uint32_t" where
  "ScreenshotMessage_getSerializeSize sz_ts m = Message_getSerializeSize sz_ts m"

text \<open>Modelled from the spec: \<^verbatim>\<open>ResponseMessage::getSerializeSize\<close>, declared in
  \<^verbatim>\<open>msProtocol.h\<close> and defined in no source file.\<close>

definition ResponseMessage_getSerializeSize ::
  "('ts \<Rightarrow> uint32_t) \<Rightarrow> 'ts ResponseMessage \<Rightarrow> uint32_t" where
  "ResponseMessage_getSerializeSize sz_ts m =
     Message_getSerializeSize sz_ts m + ssize_vector ssize_string (text_Response m)"

text \<open>Modelled from the spec: \<^verbatim>\<open>QueryMessage::getSerializeSize\<close>, declared in
  \<^verbatim>\<open>msProtocol.h\<close> and defined in no source file.\<close>

definition QueryMessage_getSerializeSize ::
  "('ts \<Rightarrow> uint32_t) \<Rightarrow> ('ts, 'ptr) QueryMessage \<Rightarrow> uint32_t" where
  "QueryMessage_getSerializeSize sz_ts m =
     Message_getSerializeSize sz_ts m + ssize_int32 (query_type m)"

text \<open>Modelled from the spec: \<^verbatim>\<open>PollMessage::getSerializeSize\<close>, declared in
  \<^verbatim>\<open>msProtocol.h\<close> and defined in no source file.\<close>

definition PollMessage_getSerializeSize ::
  "('ts \<Rightarrow> uint32_t) \<Rightarrow> 'ts PollMessage \<Rightarrow> uint32_t" where
  "PollMessage_getSerializeSize sz_ts m =
     Message_getSerializeSize sz_ts m + ssize_int32 (poll_type m)"

text \<open>The number of bytes a serializer call added to the stream it was given.\<close>

definition written :: "ostream \<Rightarrow> ostream \<Rightarrow> nat" where
  "written os os' = length os' - length os"

section \<open>Facts about the primitives\<close>

lemma le_word32_bytes:
  "le_word32 (ucast w) (ucast (drop_bit 8 w)) (ucast (drop_bit 16 w)) (ucast (drop_bit 24 w)) = w"
  unfolding le_word32_def
proof (rule bit_word_eqI)
  fix n
  assume n: "n < LENGTH(32)"
  consider "n < 8" | "8 \<le> n" "n < 16" | "16 \<le> n" "n < 24" | "24 \<le> n"
    by linarith
  then show "bit (ucast (ucast w :: byte) OR push_bit 8 (ucast (ucast (drop_bit 8 w) :: byte)) OR
       push_bit 16 (ucast (ucast (drop_bit 16 w) :: byte)) OR push_bit 24 (ucast (ucast (drop_bit 24 w) :: byte)) :: 32 word) n = bit w n"
    using n by cases (auto simp: bit_simps not_less)
qed

lemma length_le_bytes32 [simp]: "length (le_bytes32 w) = 4"
  by (simp add: le_bytes32_def)

lemma read_bytes32_le_bytes32 [simp]: "read_bytes32 (le_bytes32 w @ rest) = Inr (w, rest)"
  by (simp add: le_bytes32_def le_word32_bytes)

lemma length_le_bytes64 [simp]: "length (le_bytes64 w) = 8"
  by (simp add: le_bytes64_def)

lemma ucast_halves64: "ucast (ucast w :: 32 word) OR push_bit 32 (ucast (ucast (drop_bit 32 w) :: 32 word)) = (w :: 64 word)"
  by (rule bit_word_eqI) (auto simp: bit_simps)

lemma read_bytes64_le_bytes64 [simp]: "read_bytes64 (le_bytes64 w @ rest) = Inr (w, rest)"
  by (simp add: le_bytes64_def le_bytes32_def le_word32_bytes ucast_halves64)

lemma roundtrips_int32 [simp]: "roundtrips int32_ser v"
  by (simp add: roundtrips_def read_is_def int32_ser_def)

lemma roundtrips_uint64 [simp]: "roundtrips uint64_ser v"
  by (simp add: roundtrips_def read_is_def uint64_ser_def)

lemma roundtrips_string: "length s < 2 ^ 32 \<Longrightarrow> roundtrips string_ser s"
  by (simp add: roundtrips_def read_is_def string_ser_def write_string_def read_string_def unat_of_nat)

lemma read_elements_concat:
  "\<forall>x \<in> set xs. roundtrips s x \<Longrightarrow>
   read_elements s (length xs) (concat (map (write_impl s) xs) @ rest) = Inr (xs, rest)"
  by (induction xs) (simp_all add: roundtrips_def)

lemma roundtrips_vector:
  "length xs < 2 ^ 32 \<Longrightarrow> \<forall>x \<in> set xs. roundtrips s x \<Longrightarrow> roundtrips (vector_ser s) xs"
  using read_elements_concat [of xs s]
  by (simp add: roundtrips_def read_is_def vector_ser_def write_vector_def read_vector_def unat_of_nat)

lemma GetFlags_of_bits_bits: "GetFlags_of_bits (GetFlags_bits f) = f"
  by (cases f) (simp add: GetFlags_of_bits_def GetFlags_bits_def bit_simps)

lemma roundtrips_GetFlags [simp]: "roundtrips GetFlags_ser f"
  by (simp add: roundtrips_def read_is_def GetFlags_ser_def GetFlags_of_bits_bits)

lemma and_then_Inl [simp]: "and_then (Inl x) f = Inl x"
  by (simp add: and_then_def)

lemma and_then_Inr [simp]: "and_then (Inr (m, ist)) f = f m ist"
  by (simp add: and_then_def)

lemma read_field_roundtrips:
  "roundtrips s v \<Longrightarrow> read_field s store m (write_impl s v @ rest) = Inr (store v m, rest)"
  by (simp add: read_field_def roundtrips_def)

lemma read_field_int32 [simp]:
  "read_field int32_ser store m (le_bytes32 v @ rest) = Inr (store v m, rest)"
  by (simp add: read_field_def read_is_def int32_ser_def)

lemma Message_serialize_bytes:
  "Message_serialize ts os m =
     os @ le_bytes32 (protocol_version m) @ le_bytes32 (session_id m) @
     le_bytes32 (message_id m) @ write_impl ts (timestamp_send m)"
  by (simp add: Message_serialize_def write_os_def int32_ser_def)

lemma Message_deserialize_mismatch:
  "read_is int32_ser ist = Inr (v, rest) \<Longrightarrow> v \<noteq> V \<Longrightarrow>
   Message_deserialize V ts m ist = Inl (VersionMismatch, m\<lparr>protocol_version := v\<rparr>, rest)"
  by (simp add: Message_deserialize_def read_field_def)

lemma Message_deserialize_bytes:
  "roundtrips ts t \<Longrightarrow>
   Message_deserialize V ts m0 (le_bytes32 V @ le_bytes32 s @ le_bytes32 i @ write_impl ts t @ rest) =
     Inr (m0\<lparr>protocol_version := V, session_id := s, message_id := i, timestamp_send := t\<rparr>, rest)"
  by (simp add: Message_deserialize_def read_field_roundtrips)

lemma Message_roundtrip:
  "protocol_version m = V \<Longrightarrow> roundtrips ts (timestamp_send m) \<Longrightarrow>
   Message_deserialize V ts m0 (Message_serialize ts [] m @ rest) = Inr (copy_envelope m m0, rest)"
  by (simp add: Message_serialize_bytes copy_envelope_def Message_deserialize_bytes)

lemma GetMessage_roundtrip:
  "protocol_version m = V \<Longrightarrow> roundtrips ts (timestamp_send m) \<Longrightarrow>
   roundtrips ss (scene_settings m) \<Longrightarrow> roundtrips rs (refine_settings m) \<Longrightarrow>
   GetMessage_deserialize V ts ss rs m0 (GetMessage_serialize ts ss rs [] m @ rest) =
     Inr ((copy_envelope m m0)\<lparr>flags := flags m, scene_settings := scene_settings m,
            refine_settings := refine_settings m\<rparr>, rest)"
  by (simp add: GetMessage_deserialize_def GetMessage_serialize_def write_os_def
      Message_roundtrip read_field_roundtrips)

lemma SetMessage_roundtrip:
  "protocol_version m = V \<Longrightarrow> roundtrips ts (timestamp_send m) \<Longrightarrow>
   roundtrips sc (scene m) \<Longrightarrow>
   SetMessage_deserialize V ts sc m0 (SetMessage_serialize ts sc [] m @ rest) =
     Inr ((copy_envelope m m0)\<lparr>scene := scene m\<rparr>, rest)"
  by (simp add: SetMessage_deserialize_def SetMessage_serialize_def write_os_def
      Message_roundtrip read_field_roundtrips)

lemma DeleteMessage_roundtrip:
  "protocol_version m = V \<Longrightarrow> roundtrips ts (timestamp_send m) \<Longrightarrow>
   roundtrips (vector_ser ident) (entities m) \<Longrightarrow>
   roundtrips (vector_ser ident) (materials m) \<Longrightarrow>
   roundtrips (vector_ser ident) (instances m) \<Longrightarrow>
   DeleteMessage_deserialize V ts ident m0 (DeleteMessage_serialize ts ident [] m @ rest) =
     Inr ((copy_envelope m m0)\<lparr>entities := entities m, materials := materials m,
            instances := instances m\<rparr>, rest)"
  by (simp add: DeleteMessage_deserialize_def DeleteMessage_serialize_def write_os_def
      Message_roundtrip read_field_roundtrips)

lemma FenceMessage_roundtrip:
  "protocol_version m = V \<Longrightarrow> roundtrips ts (timestamp_send m) \<Longrightarrow>
   FenceMessage_deserialize V ts m0 (FenceMessage_serialize ts [] m @ rest) =
     Inr ((copy_envelope m m0)\<lparr>type_Fence := type_Fence m\<rparr>, rest)"
  by (simp add: FenceMessage_deserialize_def FenceMessage_serialize_def write_os_def
      Message_roundtrip read_field_roundtrips)

lemma TextMessage_roundtrip:
  "protocol_version m = V \<Longrightarrow> roundtrips ts (timestamp_send m) \<Longrightarrow>
   roundtrips string_ser (text_Text m) \<Longrightarrow>
   TextMessage_deserialize V ts m0 (TextMessage_serialize ts [] m @ rest) =
     Inr ((copy_envelope m m0)\<lparr>text_Text := text_Text m, type_Text := type_Text m\<rparr>, rest)"
  by (simp add: TextMessage_deserialize_def TextMessage_serialize_def write_os_def
      Message_roundtrip read_field_roundtrips)

lemma ScreenshotMessage_roundtrip:
  "protocol_version m = V \<Longrightarrow> roundtrips ts (timestamp_send m) \<Longrightarrow>
   ScreenshotMessage_deserialize V ts m0 (ScreenshotMessage_serialize ts [] m @ rest) =
     Inr (copy_envelope m m0, rest)"
  by (simp add: ScreenshotMessage_deserialize_def ScreenshotMessage_serialize_def Message_roundtrip)

lemma ResponseMessage_roundtrip:
  "protocol_version m = V \<Longrightarrow> roundtrips ts (timestamp_send m) \<Longrightarrow>
   roundtrips (vector_ser string_ser) (text_Response m) \<Longrightarrow>
   ResponseMessage_deserialize V ts m0 (ResponseMessage_serialize ts [] m @ rest) =
     Inr ((copy_envelope m m0)\<lparr>text_Response := text_Response m\<rparr>, rest)"
  by (simp add: ResponseMessage_deserialize_def ResponseMessage_serialize_def write_os_def
      Message_roundtrip read_field_roundtrips)

lemma QueryMessage_roundtrip:
  "protocol_version m = V \<Longrightarrow> roundtrips ts (timestamp_send m) \<Longrightarrow>
   QueryMessage_deserialize V ts m0 (QueryMessage_serialize ts [] m @ rest) =
     Inr ((copy_envelope m m0)\<lparr>query_type := query_type m\<rparr>, rest)"
  by (simp add: QueryMessage_deserialize_def QueryMessage_serialize_def write_os_def
      Message_roundtrip read_field_roundtrips)

lemma PollMessage_roundtrip:
  "protocol_version m = V \<Longrightarrow> roundtrips ts (timestamp_send m) \<Longrightarrow>
   PollMessage_deserialize V ts m0 (PollMessage_serialize ts [] m @ rest) =
     Inr ((copy_envelope m m0)\<lparr>poll_type := poll_type m\<rparr>, rest)"
  by (simp add: PollMessage_deserialize_def PollMessage_serialize_def write_os_def
      Message_roundtrip read_field_roundtrips)

lemma read_bytes32_Inr:
  "read_bytes32 ist = Inr (v, rest) \<Longrightarrow> \<exists>b0 b1 b2 b3. ist = b0 # b1 # b2 # b3 # rest"
  by (erule read_bytes32.elims) auto

lemma read_bytes32_Inl: "read_bytes32 ist = Inl e \<Longrightarrow> e = DecodeTruncated"
  by (erule read_bytes32.elims) auto

lemma keeps_Inl: "f m = a \<Longrightarrow> keeps f a (Inl (e, m, ist))"
  by (simp add: keeps_def)

lemma keeps_if: "keeps f a r1 \<Longrightarrow> keeps f a r2 \<Longrightarrow> keeps f a (if c then r1 else r2)"
  by simp

lemma keeps_read_field:
  "f m = a \<Longrightarrow> (\<And>v x. f (store v x) = f x) \<Longrightarrow> keeps f a (read_field s store m ist)"
  by (simp add: keeps_def read_field_def split: sum.splits prod.splits)

lemma keeps_and_then:
  assumes "keeps f a r" and "\<And>x ist. f x = a \<Longrightarrow> keeps f a (k x ist)"
  shows "keeps f a (and_then r k)"
proof (cases r)
  case (Inl x)
  with assms(1) show ?thesis by (simp add: and_then_def)
next
  case (Inr p)
  obtain x ist where p: "p = (x, ist)" by (cases p)
  with Inr assms(1) have "f x = a" by (simp add: keeps_def)
  with Inr p assms(2) show ?thesis by (simp add: and_then_def)
qed

lemma keeps_Message_deserialize:
  assumes "f m = a"
    and "\<And>v x. f (x\<lparr>protocol_version := v\<rparr>) = f x" "\<And>v x. f (x\<lparr>session_id := v\<rparr>) = f x"
    and "\<And>v x. f (x\<lparr>message_id := v\<rparr>) = f x" "\<And>v x. f (x\<lparr>timestamp_send := v\<rparr>) = f x"
  shows "keeps f a (Message_deserialize V ts m ist)"
  unfolding Message_deserialize_def
  by (intro keeps_and_then keeps_read_field keeps_if keeps_Inl) (simp_all add: assms)

lemma keepsD:
  "keeps f a r \<Longrightarrow> r = Inl (e, m', rest) \<or> r = Inr (m', rest) \<Longrightarrow> f m' = a"
  by (auto simp: keeps_def)

lemma keeps_ready_Get: "keeps ready_Get (ready_Get m) (GetMessage_deserialize V ts ss rs m ist)"
  unfolding GetMessage_deserialize_def
  by (intro keeps_and_then keeps_Message_deserialize keeps_read_field) simp_all

lemma keeps_ready_Screenshot:
  "keeps ready_Screenshot (ready_Screenshot m) (ScreenshotMessage_deserialize V ts m ist)"
  unfolding ScreenshotMessage_deserialize_def
  by (intro keeps_Message_deserialize) simp_all

lemma keeps_ready_Query: "keeps ready_Query (ready_Query m) (QueryMessage_deserialize V ts m ist)"
  unfolding QueryMessage_deserialize_def
  by (intro keeps_and_then keeps_Message_deserialize keeps_read_field) simp_all

lemma keeps_ready_Poll: "keeps ready_Poll (ready_Poll m) (PollMessage_deserialize V ts m ist)"
  unfolding PollMessage_deserialize_def
  by (intro keeps_and_then keeps_Message_deserialize keeps_read_field) simp_all

lemma read_is_int32_Inl: "read_is int32_ser ist = Inl e \<Longrightarrow> e = DecodeTruncated"
  by (simp add: read_is_def int32_ser_def read_bytes32_Inl)

lemma read_is_uint64_Inl: "read_is uint64_ser ist = Inl e \<Longrightarrow> e = DecodeTruncated"
  unfolding read_is_def uint64_ser_def
  by simp (erule read_bytes64.elims, auto)

lemma tellg_read_int32:
  "read_is int32_ser ist = Inr (v, rest) \<Longrightarrow> tellg ist rest = 4"
  by (auto simp: read_is_def int32_ser_def tellg_def dest: read_bytes32_Inr)

section \<open>The version gate\<close>

text \<open>
  C1 (as amended). Whenever the first integer decoded from the input differs from
  \<^verbatim>\<open>msProtocolVersion\<close>, \<^verbatim>\<open>Message::deserialize\<close>, and with it the \<^verbatim>\<open>deserialize\<close> of each
  of the nine classes, throws the protocol-version error at once: the only bytes consumed
  are the four of \<^verbatim>\<open>protocol_version\<close>, so the decoder stops at position 4, inside the
  header. The session id, the message id, the timestamp and the whole payload are left
  unread, and \<^verbatim>\<open>protocol_version\<close> is the only member written.
\<close>

theorem version_gate_stops_inside_header:
  assumes "read_is int32_ser ist = Inr (v, rest)" and "v \<noteq> V"
  shows "Message_deserialize V ts m ist = Inl (VersionMismatch, m\<lparr>protocol_version := v\<rparr>, rest) \<and>
    tellg ist rest = 4 \<and>
    GetMessage_deserialize V ts ss rs g ist = Inl (VersionMismatch, g\<lparr>protocol_version := v\<rparr>, rest) \<and>
    SetMessage_deserialize V ts sc s ist = Inl (VersionMismatch, s\<lparr>protocol_version := v\<rparr>, rest) \<and>
    DeleteMessage_deserialize V ts ident d ist = Inl (VersionMismatch, d\<lparr>protocol_version := v\<rparr>, rest) \<and>
    FenceMessage_deserialize V ts f ist = Inl (VersionMismatch, f\<lparr>protocol_version := v\<rparr>, rest) \<and>
    TextMessage_deserialize V ts t ist = Inl (VersionMismatch, t\<lparr>protocol_version := v\<rparr>, rest) \<and>
    ScreenshotMessage_deserialize V ts c ist = Inl (VersionMismatch, c\<lparr>protocol_version := v\<rparr>, rest) \<and>
    ResponseMessage_deserialize V ts r ist = Inl (VersionMismatch, r\<lparr>protocol_version := v\<rparr>, rest) \<and>
    QueryMessage_deserialize V ts q ist = Inl (VersionMismatch, q\<lparr>protocol_version := v\<rparr>, rest) \<and>
    PollMessage_deserialize V ts p ist = Inl (VersionMismatch, p\<lparr>protocol_version := v\<rparr>, rest)"
  using assms
  by (simp add: Message_deserialize_mismatch tellg_read_int32 GetMessage_deserialize_def
      SetMessage_deserialize_def DeleteMessage_deserialize_def FenceMessage_deserialize_def
      TextMessage_deserialize_def ScreenshotMessage_deserialize_def ResponseMessage_deserialize_def
      QueryMessage_deserialize_def PollMessage_deserialize_def)

text \<open>A Text message of version 2 reaching a decoder compiled for version 1: session id 7,
  message id 9, timestamp 5 and the payload (the string \<open>A\<close>, severity 0) stay unread.\<close>

theorem version_gate_stops_inside_header_witness:
  "read_is int32_ser
     [2, 0, 0, 0, 7, 0, 0, 0, 9, 0, 0, 0, 5, 0, 0, 0, 0, 0, 0, 0, 1, 0, 0, 0, 0x41, 0, 0, 0, 0] =
   Inr (2, [7, 0, 0, 0, 9, 0, 0, 0, 5, 0, 0, 0, 0, 0, 0, 0, 1, 0, 0, 0, 0x41, 0, 0, 0, 0]) \<and>
   TextMessage_deserialize 1 uint64_ser
     \<lparr>protocol_version = 1, session_id = 0, message_id = 0, timestamp_send = 0,
      text_Text = [], type_Text = 0\<rparr>
     [2, 0, 0, 0, 7, 0, 0, 0, 9, 0, 0, 0, 5, 0, 0, 0, 0, 0, 0, 0, 1, 0, 0, 0, 0x41, 0, 0, 0, 0] =
   Inl (VersionMismatch,
     \<lparr>protocol_version = 2, session_id = 0, message_id = 0, timestamp_send = 0,
      text_Text = [], type_Text = 0\<rparr>,
     [7, 0, 0, 0, 9, 0, 0, 0, 5, 0, 0, 0, 0, 0, 0, 0, 1, 0, 0, 0, 0x41, 0, 0, 0, 0])"
proof -
  have r: "read_is int32_ser
      [2, 0, 0, 0, 7, 0, 0, 0, 9, 0, 0, 0, 5, 0, 0, 0, 0, 0, 0, 0, 1, 0, 0, 0, 0x41, 0, 0, 0, 0] =
    Inr (2, [7, 0, 0, 0, 9, 0, 0, 0, 5, 0, 0, 0, 0, 0, 0, 0, 1, 0, 0, 0, 0x41, 0, 0, 0, 0])"
    by (simp add: read_is_def int32_ser_def le_word32_def)
  have n: "(2 :: int32) \<noteq> 1" by simp
  show ?thesis
    using r version_gate_stops_inside_header [OF r n, where ts = uint64_ser and
      t = "\<lparr>protocol_version = 1, session_id = 0, message_id = 0, timestamp_send = 0,
      text_Text = [], type_Text = 0\<rparr>", THEN conjunct2, THEN conjunct2, THEN conjunct2,
      THEN conjunct2, THEN conjunct2, THEN conjunct2, THEN conjunct1]
    by simp
qed

text \<open>
  C1 as stated puts the decoder after the header when the gate rejects a message.
  A version-2 envelope (session id 7, message id 9, a 64-bit timestamp 5) followed by two
  payload bytes is given to a decoder compiled for version 1: the header is 20 bytes
  long, and the decoder stops at position 4 with 16 bytes of header still unread.
\<close>

theorem version_gate_position_counterexample:
  "Message_deserialize 1 uint64_ser
     \<lparr>protocol_version = 1, session_id = 0, message_id = 0, timestamp_send = 0\<rparr>
     (Message_serialize uint64_ser []
        \<lparr>protocol_version = 2, session_id = 7, message_id = 9, timestamp_send = 5\<rparr> @ [0xAA, 0xBB]) =
   Inl (VersionMismatch,
     \<lparr>protocol_version = 2, session_id = 0, message_id = 0, timestamp_send = 0\<rparr>,
     [7, 0, 0, 0, 9, 0, 0, 0, 5, 0, 0, 0, 0, 0, 0, 0, 0xAA, 0xBB]) \<and>
   tellg (Message_serialize uint64_ser []
        \<lparr>protocol_version = 2, session_id = 7, message_id = 9, timestamp_send = 5\<rparr> @ [0xAA, 0xBB])
     [7, 0, 0, 0, 9, 0, 0, 0, 5, 0, 0, 0, 0, 0, 0, 0, 0xAA, 0xBB] = 4 \<and>
   length (Message_serialize uint64_ser []
        \<lparr>protocol_version = 2, session_id = 7, message_id = 9, timestamp_send = (5 :: uint64_t)\<rparr>) = 20"
  by (simp add: Message_serialize_bytes Message_deserialize_def read_field_def read_is_def
      int32_ser_def uint64_ser_def le_bytes64_def le_bytes32_def le_word32_def tellg_def)

text \<open>
  C9. When \<^verbatim>\<open>Message::deserialize\<close> throws the version error, the object's
  \<^verbatim>\<open>protocol_version\<close> already holds the integer decoded from the input, which is not
  the compiled version, and nothing else in the object has changed: \<^verbatim>\<open>session_id\<close>,
  \<^verbatim>\<open>message_id\<close> and \<^verbatim>\<open>timestamp_send\<close> keep their values from before the call. (The
  timestamp's reader, a parameter, is assumed never to raise the version error itself.)
\<close>

theorem version_mismatch_overwrites_only_version:
  assumes "Message_deserialize V ts m ist = Inl (VersionMismatch, m', rest)"
    and "\<forall>i. read_is ts i \<noteq> Inl VersionMismatch"
  shows "read_is int32_ser ist = Inr (protocol_version m', rest) \<and>
    protocol_version m' \<noteq> V \<and>
    session_id m' = session_id m \<and> message_id m' = message_id m \<and>
    timestamp_send m' = timestamp_send m \<and>
    m' = m\<lparr>protocol_version := protocol_version m'\<rparr>"
  using assms
  by (auto simp: Message_deserialize_def read_field_def and_then_def
      split: sum.splits prod.splits if_splits dest: read_is_int32_Inl)

theorem version_mismatch_overwrites_only_version_witness:
  "Message_deserialize 1 uint64_ser
     \<lparr>protocol_version = 1, session_id = 3, message_id = 4, timestamp_send = 6\<rparr>
     [2, 0, 0, 0, 7, 0, 0, 0] =
   Inl (VersionMismatch,
     \<lparr>protocol_version = 2, session_id = 3, message_id = 4, timestamp_send = 6\<rparr>, [7, 0, 0, 0]) \<and>
   read_is int32_ser [2, 0, 0, 0, 7, 0, 0, 0] = Inr (2, [7, 0, 0, 0]) \<and>
   session_id \<lparr>protocol_version = 2 :: int32, session_id = 3 :: int32, message_id = 4 :: int32,
     timestamp_send = 6 :: uint64_t\<rparr> = 3"
proof -
  have h: "Message_deserialize 1 uint64_ser
      \<lparr>protocol_version = 1, session_id = 3, message_id = 4, timestamp_send = 6\<rparr>
      [2, 0, 0, 0, 7, 0, 0, 0] =
    Inl (VersionMismatch,
      \<lparr>protocol_version = 2, session_id = 3, message_id = 4, timestamp_send = 6\<rparr>, [7, 0, 0, 0])"
    by (simp add: Message_deserialize_def read_field_def read_is_def int32_ser_def le_word32_def)
  have g: "\<forall>i. read_is uint64_ser i \<noteq> Inl VersionMismatch"
    using read_is_uint64_Inl by fastforce
  show ?thesis
    using h version_mismatch_overwrites_only_version [OF h g] by simp
qed

section \<open>Order of the fields on the wire\<close>

lemma kind_serialize_bytes:
  "GetMessage_serialize ts ss rs os g =
     Message_serialize ts os g @ write_impl GetFlags_ser (flags g) @
     write_impl ss (scene_settings g) @ write_impl rs (refine_settings g)"
  "SetMessage_serialize ts sc os s = Message_serialize ts os s @ write_impl sc (scene s)"
  "DeleteMessage_serialize ts ident os d =
     Message_serialize ts os d @ write_vector ident (entities d) @
     write_vector ident (materials d) @ write_vector ident (instances d)"
  "FenceMessage_serialize ts os f = Message_serialize ts os f @ le_bytes32 (type_Fence f)"
  "TextMessage_serialize ts os t =
     Message_serialize ts os t @ write_string (text_Text t) @ le_bytes32 (type_Text t)"
  "ScreenshotMessage_serialize ts os c = Message_serialize ts os c"
  "ResponseMessage_serialize ts os r =
     Message_serialize ts os r @ write_vector string_ser (text_Response r)"
  "QueryMessage_serialize ts os q = Message_serialize ts os q @ le_bytes32 (query_type q)"
  "PollMessage_serialize ts os p = Message_serialize ts os p @ le_bytes32 (poll_type p)"
  by (simp_all add: GetMessage_serialize_def SetMessage_serialize_def DeleteMessage_serialize_def
      FenceMessage_serialize_def TextMessage_serialize_def ScreenshotMessage_serialize_def
      ResponseMessage_serialize_def QueryMessage_serialize_def PollMessage_serialize_def
      write_os_def int32_ser_def string_ser_def vector_ser_def)




section \<open>Round trips\<close>

text \<open>
  C5 (as amended). A Delete message carries three sequences of identifiers, \<^verbatim>\<open>entities\<close>,
  \<^verbatim>\<open>materials\<close> and \<^verbatim>\<open>instances\<close>, each written and read as a sequence of its own.
  For every Delete message that carries the version the decoder was compiled for and
  whose three sequences are each shorter than \<open>2\<^sup>3\<^sup>2\<close> (the range of the count prefix),
  serializing it and deserializing the bytes into any Delete object succeeds and gives
  back each of the three sequences with the same elements in the same order; and
  whenever the decode succeeds, the three sequences of the result are those of the
  message. The identifier type is a parameter: its serializer has to read back the
  identifiers of the message.
\<close>

theorem Delete_sequences_keep_their_order:
  assumes "roundtrips ts (timestamp_send m)"
    and "\<forall>x \<in> set (entities m) \<union> set (materials m) \<union> set (instances m). roundtrips ident x"
    and "length (entities m) < 2 ^ 32" "length (materials m) < 2 ^ 32"
      "length (instances m) < 2 ^ 32"
  shows "(protocol_version m = V \<longrightarrow>
      DeleteMessage_deserialize V ts ident tgt (DeleteMessage_serialize ts ident [] m @ rest) =
        Inr ((copy_envelope m tgt)\<lparr>entities := entities m, materials := materials m,
               instances := instances m\<rparr>, rest)) \<and>
    (\<forall>m' rest'.
      DeleteMessage_deserialize V ts ident tgt (DeleteMessage_serialize ts ident [] m @ rest) =
        Inr (m', rest') \<longrightarrow>
      entities m' = entities m \<and> materials m' = materials m \<and> instances m' = instances m)"
proof -
  have e: "roundtrips (vector_ser ident) (entities m)"
    "roundtrips (vector_ser ident) (materials m)" "roundtrips (vector_ser ident) (instances m)"
    using assms by (auto intro: roundtrips_vector)
  have ok: "protocol_version m = V \<Longrightarrow>
      DeleteMessage_deserialize V ts ident tgt (DeleteMessage_serialize ts ident [] m @ rest) =
        Inr ((copy_envelope m tgt)\<lparr>entities := entities m, materials := materials m,
               instances := instances m\<rparr>, rest)"
    using assms(1) e by (simp add: DeleteMessage_roundtrip)
  have bad: "protocol_version m \<noteq> V \<Longrightarrow>
      DeleteMessage_deserialize V ts ident tgt (DeleteMessage_serialize ts ident [] m @ rest) =
        Inl (VersionMismatch, tgt\<lparr>protocol_version := protocol_version m\<rparr>,
          le_bytes32 (session_id m) @ le_bytes32 (message_id m) @
          write_impl ts (timestamp_send m) @ write_vector ident (entities m) @
          write_vector ident (materials m) @ write_vector ident (instances m) @ rest)"
    by (simp add: kind_serialize_bytes Message_serialize_bytes DeleteMessage_deserialize_def
        Message_deserialize_mismatch read_is_def int32_ser_def)
  show ?thesis
  proof (cases "protocol_version m = V")
    case True
    with ok show ?thesis by simp
  next
    case False
    with bad show ?thesis by simp
  qed
qed

theorem Delete_sequences_keep_their_order_witness:
  "DeleteMessage_deserialize 1 uint64_ser int32_ser
     \<lparr>protocol_version = 1, session_id = 0, message_id = 0, timestamp_send = 0,
      entities = [], materials = [], instances = []\<rparr>
     (DeleteMessage_serialize uint64_ser int32_ser []
        \<lparr>protocol_version = 1, session_id = 7, message_id = 9, timestamp_send = 5,
         entities = [3, 1, 2], materials = [8], instances = []\<rparr>) =
   Inr (\<lparr>protocol_version = 1, session_id = 7, message_id = 9, timestamp_send = 5,
         entities = [3, 1, 2], materials = [8], instances = []\<rparr>, [])"
proof -
  let ?m = "\<lparr>protocol_version = 1 :: int32, session_id = 7 :: int32, message_id = 9 :: int32,
    timestamp_send = 5 :: uint64_t, entities = [3, 1, 2 :: int32], materials = [8 :: int32],
    instances = [] :: int32 list\<rparr>"
  have h1: "roundtrips uint64_ser (timestamp_send ?m)" by simp
  have h2: "\<forall>x \<in> set (entities ?m) \<union> set (materials ?m) \<union> set (instances ?m).
    roundtrips int32_ser x" by simp
  have h3: "length (entities ?m) < 2 ^ 32" "length (materials ?m) < 2 ^ 32"
    "length (instances ?m) < 2 ^ 32" by simp_all
  show ?thesis
    using Delete_sequences_keep_their_order [OF h1 h2 h3, where V = 1 and rest = "[]" and
      tgt = "\<lparr>protocol_version = 1, session_id = 0, message_id = 0, timestamp_send = 0,
      entities = [], materials = [], instances = []\<rparr>", THEN conjunct1]
    by (simp add: copy_envelope_def)
qed

text \<open>
  C5 as stated covers every Delete message. A Delete message with entities 3, 1, 2 whose
  \<^verbatim>\<open>protocol_version\<close> is 2 is given to a decoder compiled for version 1: the decode
  throws before any sequence is read, and the receiving object's \<^verbatim>\<open>entities\<close> stay empty.
\<close>

theorem Delete_foreign_version_counterexample:
  "DeleteMessage_deserialize 1 uint64_ser int32_ser
     \<lparr>protocol_version = 1, session_id = 0, message_id = 0, timestamp_send = 0,
      entities = [], materials = [], instances = []\<rparr>
     (DeleteMessage_serialize uint64_ser int32_ser []
        \<lparr>protocol_version = 2, session_id = 7, message_id = 9, timestamp_send = 5,
         entities = [3, 1, 2], materials = [8], instances = []\<rparr>) =
   Inl (VersionMismatch,
     \<lparr>protocol_version = 2, session_id = 0, message_id = 0, timestamp_send = 0,
      entities = [], materials = [], instances = []\<rparr>,
     [7, 0, 0, 0, 9, 0, 0, 0, 5, 0, 0, 0, 0, 0, 0, 0,
      3, 0, 0, 0, 3, 0, 0, 0, 1, 0, 0, 0, 2, 0, 0, 0,
      1, 0, 0, 0, 8, 0, 0, 0,
      0, 0, 0, 0])"
  by (simp add: kind_serialize_bytes Message_serialize_bytes DeleteMessage_deserialize_def
      Message_deserialize_def read_field_def read_is_def write_vector_def
      int32_ser_def uint64_ser_def le_bytes64_def le_bytes32_def le_word32_def)

text \<open>
  C2 (as amended). For each of the nine kinds, a message that carries the version the
  decoder was compiled for, whose strings and sequences are shorter than \<open>2\<^sup>3\<^sup>2\<close>, and
  whose values of the undeclared types are read back by their serializers, round-trips:
  deserializing its serialized form into any object of the same class stores every
  serialized member of the message into that object and leaves the input that follows
  unread. The members that are not on the wire, the \<^verbatim>\<open>ready\<close> flags and the \<^verbatim>\<open>response\<close>
  pointer of a Query, keep the value they had in the receiving object.
\<close>

theorem roundtrip_of_every_kind:
  "(protocol_version g = V \<longrightarrow> roundtrips ts (timestamp_send g) \<longrightarrow>
      roundtrips ss (scene_settings g) \<longrightarrow> roundtrips rs (refine_settings g) \<longrightarrow>
      GetMessage_deserialize V ts ss rs g' (GetMessage_serialize ts ss rs [] g @ rest) =
        Inr ((copy_envelope g g')\<lparr>flags := flags g, scene_settings := scene_settings g,
               refine_settings := refine_settings g\<rparr>, rest)) \<and>
   (protocol_version s = V \<longrightarrow> roundtrips ts (timestamp_send s) \<longrightarrow>
      roundtrips sc (scene s) \<longrightarrow>
      SetMessage_deserialize V ts sc s' (SetMessage_serialize ts sc [] s @ rest) =
        Inr ((copy_envelope s s')\<lparr>scene := scene s\<rparr>, rest)) \<and>
   (protocol_version d = V \<longrightarrow> roundtrips ts (timestamp_send d) \<longrightarrow>
      (\<forall>x \<in> set (entities d) \<union> set (materials d) \<union> set (instances d). roundtrips ident x) \<longrightarrow>
      length (entities d) < 2 ^ 32 \<longrightarrow> length (materials d) < 2 ^ 32 \<longrightarrow>
      length (instances d) < 2 ^ 32 \<longrightarrow>
      DeleteMessage_deserialize V ts ident d' (DeleteMessage_serialize ts ident [] d @ rest) =
        Inr ((copy_envelope d d')\<lparr>entities := entities d, materials := materials d,
               instances := instances d\<rparr>, rest)) \<and>
   (protocol_version f = V \<longrightarrow> roundtrips ts (timestamp_send f) \<longrightarrow>
      FenceMessage_deserialize V ts f' (FenceMessage_serialize ts [] f @ rest) =
        Inr ((copy_envelope f f')\<lparr>type_Fence := type_Fence f\<rparr>, rest)) \<and>
   (protocol_version t = V \<longrightarrow> roundtrips ts (timestamp_send t) \<longrightarrow>
      length (text_Text t) < 2 ^ 32 \<longrightarrow>
      TextMessage_deserialize V ts t' (TextMessage_serialize ts [] t @ rest) =
        Inr ((copy_envelope t t')\<lparr>text_Text := text_Text t, type_Text := type_Text t\<rparr>, rest)) \<and>
   (protocol_version c = V \<longrightarrow> roundtrips ts (timestamp_send c) \<longrightarrow>
      ScreenshotMessage_deserialize V ts c' (ScreenshotMessage_serialize ts [] c @ rest) =
        Inr (copy_envelope c c', rest)) \<and>
   (protocol_version r = V \<longrightarrow> roundtrips ts (timestamp_send r) \<longrightarrow>
      length (text_Response r) < 2 ^ 32 \<longrightarrow>
      (\<forall>x \<in> set (text_Response r). length x < 2 ^ 32) \<longrightarrow>
      ResponseMessage_deserialize V ts r' (ResponseMessage_serialize ts [] r @ rest) =
        Inr ((copy_envelope r r')\<lparr>text_Response := text_Response r\<rparr>, rest)) \<and>
   (protocol_version q = V \<longrightarrow> roundtrips ts (timestamp_send q) \<longrightarrow>
      QueryMessage_deserialize V ts q' (QueryMessage_serialize ts [] q @ rest) =
        Inr ((copy_envelope q q')\<lparr>query_type := query_type q\<rparr>, rest)) \<and>
   (protocol_version p = V \<longrightarrow> roundtrips ts (timestamp_send p) \<longrightarrow>
      PollMessage_deserialize V ts p' (PollMessage_serialize ts [] p @ rest) =
        Inr ((copy_envelope p p')\<lparr>poll_type := poll_type p\<rparr>, rest))"
proof (intro conjI impI)
  assume "protocol_version d = V" "roundtrips ts (timestamp_send d)"
    "\<forall>x \<in> set (entities d) \<union> set (materials d) \<union> set (instances d). roundtrips ident x"
    "length (entities d) < 2 ^ 32" "length (materials d) < 2 ^ 32" "length (instances d) < 2 ^ 32"
  then show "DeleteMessage_deserialize V ts ident d' (DeleteMessage_serialize ts ident [] d @ rest) =
        Inr ((copy_envelope d d')\<lparr>entities := entities d, materials := materials d,
               instances := instances d\<rparr>, rest)"
    by (intro DeleteMessage_roundtrip roundtrips_vector) auto
next
  assume "protocol_version r = V" "roundtrips ts (timestamp_send r)"
    "length (text_Response r) < 2 ^ 32" "\<forall>x \<in> set (text_Response r). length x < 2 ^ 32"
  then show "ResponseMessage_deserialize V ts r' (ResponseMessage_serialize ts [] r @ rest) =
        Inr ((copy_envelope r r')\<lparr>text_Response := text_Response r\<rparr>, rest)"
    by (intro ResponseMessage_roundtrip roundtrips_vector) (auto intro: roundtrips_string)
qed (simp_all add: GetMessage_roundtrip SetMessage_roundtrip FenceMessage_roundtrip
    TextMessage_roundtrip ScreenshotMessage_roundtrip QueryMessage_roundtrip PollMessage_roundtrip
    roundtrips_string)

text \<open>One message of each kind, among them an empty string, an empty sequence and a
  sequence holding an empty string, each followed by one more byte on the stream.\<close>

theorem roundtrip_of_every_kind_witness:
  "GetMessage_deserialize 1 uint64_ser int32_ser int32_ser
     \<lparr>protocol_version = 1, session_id = 0, message_id = 0, timestamp_send = 0,
      flags = GetFlags_of_bits 0, scene_settings = 0, refine_settings = 0, ready_Get = False\<rparr>
     (GetMessage_serialize uint64_ser int32_ser int32_ser []
        \<lparr>protocol_version = 1, session_id = 7, message_id = 9, timestamp_send = 5,
         flags = GetFlags_of_bits 0xFFF, scene_settings = 3, refine_settings = 4,
         ready_Get = True\<rparr> @ [0xEE]) =
   Inr (\<lparr>protocol_version = 1, session_id = 7, message_id = 9, timestamp_send = 5,
         flags = GetFlags_of_bits 0xFFF, scene_settings = 3, refine_settings = 4,
         ready_Get = False\<rparr>, [0xEE]) \<and>
   SetMessage_deserialize 1 uint64_ser string_ser
     \<lparr>protocol_version = 1, session_id = 0, message_id = 0, timestamp_send = 0, scene = []\<rparr>
     (SetMessage_serialize uint64_ser string_ser []
        \<lparr>protocol_version = 1, session_id = 7, message_id = 9, timestamp_send = 5,
         scene = [0x10, 0x20]\<rparr> @ [0xEE]) =
   Inr (\<lparr>protocol_version = 1, session_id = 7, message_id = 9, timestamp_send = 5,
         scene = [0x10, 0x20]\<rparr>, [0xEE]) \<and>
   DeleteMessage_deserialize 1 uint64_ser int32_ser
     \<lparr>protocol_version = 1, session_id = 0, message_id = 0, timestamp_send = 0,
      entities = [6], materials = [], instances = []\<rparr>
     (DeleteMessage_serialize uint64_ser int32_ser []
        \<lparr>protocol_version = 1, session_id = 7, message_id = 9, timestamp_send = 5,
         entities = [], materials = [4, 4], instances = [2, 1]\<rparr> @ [0xEE]) =
   Inr (\<lparr>protocol_version = 1, session_id = 7, message_id = 9, timestamp_send = 5,
         entities = [], materials = [4, 4], instances = [2, 1]\<rparr>, [0xEE]) \<and>
   FenceMessage_deserialize 1 uint64_ser
     \<lparr>protocol_version = 1, session_id = 0, message_id = 0, timestamp_send = 0, type_Fence = 0\<rparr>
     (FenceMessage_serialize uint64_ser []
        \<lparr>protocol_version = 1, session_id = 7, message_id = 9, timestamp_send = 5,
         type_Fence = 2\<rparr> @ [0xEE]) =
   Inr (\<lparr>protocol_version = 1, session_id = 7, message_id = 9, timestamp_send = 5,
         type_Fence = 2\<rparr>, [0xEE]) \<and>
   TextMessage_deserialize 1 uint64_ser
     \<lparr>protocol_version = 1, session_id = 0, message_id = 0, timestamp_send = 0,
      text_Text = [0x41], type_Text = 0\<rparr>
     (TextMessage_serialize uint64_ser []
        \<lparr>protocol_version = 1, session_id = 7, message_id = 9, timestamp_send = 5,
         text_Text = [], type_Text = 2\<rparr> @ [0xEE]) =
   Inr (\<lparr>protocol_version = 1, session_id = 7, message_id = 9, timestamp_send = 5,
         text_Text = [], type_Text = 2\<rparr>, [0xEE]) \<and>
   ScreenshotMessage_deserialize 1 uint64_ser
     \<lparr>protocol_version = 1, session_id = 0, message_id = 0, timestamp_send = 0,
      ready_Screenshot = True\<rparr>
     (ScreenshotMessage_serialize uint64_ser []
        \<lparr>protocol_version = 1, session_id = 7, message_id = 9, timestamp_send = 5,
         ready_Screenshot = False\<rparr> @ [0xEE]) =
   Inr (\<lparr>protocol_version = 1, session_id = 7, message_id = 9, timestamp_send = 5,
         ready_Screenshot = True\<rparr>, [0xEE]) \<and>
   ResponseMessage_deserialize 1 uint64_ser
     \<lparr>protocol_version = 1, session_id = 0, message_id = 0, timestamp_send = 0,
      text_Response = []\<rparr>
     (ResponseMessage_serialize uint64_ser []
        \<lparr>protocol_version = 1, session_id = 7, message_id = 9, timestamp_send = 5,
         text_Response = [[0x61], [], [0x62, 0x63]]\<rparr> @ [0xEE]) =
   Inr (\<lparr>protocol_version = 1, session_id = 7, message_id = 9, timestamp_send = 5,
         text_Response = [[0x61], [], [0x62, 0x63]]\<rparr>, [0xEE]) \<and>
   QueryMessage_deserialize 1 uint64_ser
     \<lparr>protocol_version = 1, session_id = 0, message_id = 0, timestamp_send = 0,
      query_type = 0, ready_Query = False, response = Some (11 :: nat)\<rparr>
     (QueryMessage_serialize uint64_ser []
        \<lparr>protocol_version = 1, session_id = 7, message_id = 9, timestamp_send = 5,
         query_type = 3, ready_Query = True, response = None\<rparr> @ [0xEE]) =
   Inr (\<lparr>protocol_version = 1, session_id = 7, message_id = 9, timestamp_send = 5,
         query_type = 3, ready_Query = False, response = Some 11\<rparr>, [0xEE]) \<and>
   PollMessage_deserialize 1 uint64_ser
     \<lparr>protocol_version = 1, session_id = 0, message_id = 0, timestamp_send = 0,
      poll_type = 0, ready_Poll = False\<rparr>
     (PollMessage_serialize uint64_ser []
        \<lparr>protocol_version = 1, session_id = 7, message_id = 9, timestamp_send = 5,
         poll_type = 1, ready_Poll = True\<rparr> @ [0xEE]) =
   Inr (\<lparr>protocol_version = 1, session_id = 7, message_id = 9, timestamp_send = 5,
         poll_type = 1, ready_Poll = False\<rparr>, [0xEE])"
  using roundtrip_of_every_kind [where V = 1 and ts = uint64_ser and ss = int32_ser
    and rs = int32_ser and sc = string_ser and ident = int32_ser and rest = "[0xEE]"
    and g = "\<lparr>protocol_version = 1, session_id = 7, message_id = 9, timestamp_send = 5,
         flags = GetFlags_of_bits 0xFFF, scene_settings = 3, refine_settings = 4,
         ready_Get = True\<rparr>"
    and g' = "\<lparr>protocol_version = 1, session_id = 0, message_id = 0, timestamp_send = 0,
      flags = GetFlags_of_bits 0, scene_settings = 0, refine_settings = 0, ready_Get = False\<rparr>"
    and s = "\<lparr>protocol_version = 1, session_id = 7, message_id = 9, timestamp_send = 5,
         scene = [0x10, 0x20]\<rparr>"
    and s' = "\<lparr>protocol_version = 1, session_id = 0, message_id = 0, timestamp_send = 0,
         scene = []\<rparr>"
    and d = "\<lparr>protocol_version = 1, session_id = 7, message_id = 9, timestamp_send = 5,
         entities = [], materials = [4, 4], instances = [2, 1]\<rparr>"
    and d' = "\<lparr>protocol_version = 1, session_id = 0, message_id = 0, timestamp_send = 0,
      entities = [6], materials = [], instances = []\<rparr>"
    and f = "\<lparr>protocol_version = 1, session_id = 7, message_id = 9, timestamp_send = 5,
         type_Fence = 2\<rparr>"
    and f' = "\<lparr>protocol_version = 1, session_id = 0, message_id = 0, timestamp_send = 0,
         type_Fence = 0\<rparr>"
    and t = "\<lparr>protocol_version = 1, session_id = 7, message_id = 9, timestamp_send = 5,
         text_Text = [], type_Text = 2\<rparr>"
    and t' = "\<lparr>protocol_version = 1, session_id = 0, message_id = 0, timestamp_send = 0,
      text_Text = [0x41], type_Text = 0\<rparr>"
    and c = "\<lparr>protocol_version = 1, session_id = 7, message_id = 9, timestamp_send = 5,
         ready_Screenshot = False\<rparr>"
    and c' = "\<lparr>protocol_version = 1, session_id = 0, message_id = 0, timestamp_send = 0,
      ready_Screenshot = True\<rparr>"
    and r = "\<lparr>protocol_version = 1, session_id = 7, message_id = 9, timestamp_send = 5,
         text_Response = [[0x61], [], [0x62, 0x63]]\<rparr>"
    and r' = "\<lparr>protocol_version = 1, session_id = 0, message_id = 0, timestamp_send = 0,
      text_Response = []\<rparr>"
    and q = "\<lparr>protocol_version = 1, session_id = 7, message_id = 9, timestamp_send = 5,
         query_type = 3, ready_Query = True, response = None\<rparr>"
    and q' = "\<lparr>protocol_version = 1, session_id = 0, message_id = 0, timestamp_send = 0,
      query_type = 0, ready_Query = False, response = Some (11 :: nat)\<rparr>"
    and p = "\<lparr>protocol_version = 1, session_id = 7, message_id = 9, timestamp_send = 5,
         poll_type = 1, ready_Poll = True\<rparr>"
    and p' = "\<lparr>protocol_version = 1, session_id = 0, message_id = 0, timestamp_send = 0,
      poll_type = 0, ready_Poll = False\<rparr>"]
  by (simp add: copy_envelope_def roundtrips_string)

text \<open>
  C2 as stated ranges over every field value, \<^verbatim>\<open>protocol_version\<close> included. A Fence
  message whose \<^verbatim>\<open>protocol_version\<close> is 2 does not come back from a decoder compiled for
  version 1: the decode throws, and neither the session id 7, the message id 9, the
  timestamp 5 nor the fence type 1 reach the receiving object.
\<close>

theorem roundtrip_foreign_version_counterexample:
  "FenceMessage_deserialize 1 uint64_ser
     \<lparr>protocol_version = 1, session_id = 0, message_id = 0, timestamp_send = 0, type_Fence = 0\<rparr>
     (FenceMessage_serialize uint64_ser []
        \<lparr>protocol_version = 2, session_id = 7, message_id = 9, timestamp_send = 5,
         type_Fence = 1\<rparr>) =
   Inl (VersionMismatch,
     \<lparr>protocol_version = 2, session_id = 0, message_id = 0, timestamp_send = 0, type_Fence = 0\<rparr>,
     [7, 0, 0, 0, 9, 0, 0, 0, 5, 0, 0, 0, 0, 0, 0, 0, 1, 0, 0, 0])"
  by (simp add: kind_serialize_bytes Message_serialize_bytes FenceMessage_deserialize_def
      Message_deserialize_def read_field_def read_is_def
      int32_ser_def uint64_ser_def le_bytes64_def le_bytes32_def le_word32_def)

section \<open>The completion flags\<close>

text \<open>
  C7 (as amended). For each request-style class (Get, Screenshot, Query, Poll) the
  \<^verbatim>\<open>ready\<close> flag contributes nothing to what \<^verbatim>\<open>serialize\<close> writes: changing the flag
  leaves the output as it is. And \<^verbatim>\<open>deserialize\<close> leaves the flag of the object it fills
  unchanged, whether it returns or throws. So the flag of an object that has just
  received a message is the flag that object had before the call: decoding does not
  carry the sender's flag over, and it does not set the flag either.
\<close>

theorem ready_flag_untouched:
  "(\<forall>b. GetMessage_serialize ts ss rs os (g\<lparr>ready_Get := b\<rparr>) = GetMessage_serialize ts ss rs os g) \<and>
   (\<forall>b. ScreenshotMessage_serialize ts os (c\<lparr>ready_Screenshot := b\<rparr>) =
      ScreenshotMessage_serialize ts os c) \<and>
   (\<forall>b. QueryMessage_serialize ts os (q\<lparr>ready_Query := b\<rparr>) = QueryMessage_serialize ts os q) \<and>
   (\<forall>b. PollMessage_serialize ts os (p\<lparr>ready_Poll := b\<rparr>) = PollMessage_serialize ts os p) \<and>
   (\<forall>ist e g' rest.
      GetMessage_deserialize V ts ss rs g ist = Inl (e, g', rest) \<or>
      GetMessage_deserialize V ts ss rs g ist = Inr (g', rest) \<longrightarrow> ready_Get g' = ready_Get g) \<and>
   (\<forall>ist e c' rest.
      ScreenshotMessage_deserialize V ts c ist = Inl (e, c', rest) \<or>
      ScreenshotMessage_deserialize V ts c ist = Inr (c', rest) \<longrightarrow>
      ready_Screenshot c' = ready_Screenshot c) \<and>
   (\<forall>ist e q' rest.
      QueryMessage_deserialize V ts q ist = Inl (e, q', rest) \<or>
      QueryMessage_deserialize V ts q ist = Inr (q', rest) \<longrightarrow> ready_Query q' = ready_Query q) \<and>
   (\<forall>ist e p' rest.
      PollMessage_deserialize V ts p ist = Inl (e, p', rest) \<or>
      PollMessage_deserialize V ts p ist = Inr (p', rest) \<longrightarrow> ready_Poll p' = ready_Poll p)"
proof -
  have s1: "GetMessage_serialize ts ss rs os (g\<lparr>ready_Get := b\<rparr>) = GetMessage_serialize ts ss rs os g"
    for b by (simp add: GetMessage_serialize_def Message_serialize_def)
  have s2: "ScreenshotMessage_serialize ts os (c\<lparr>ready_Screenshot := b\<rparr>) =
      ScreenshotMessage_serialize ts os c"
    for b by (simp add: ScreenshotMessage_serialize_def Message_serialize_def)
  have s3: "QueryMessage_serialize ts os (q\<lparr>ready_Query := b\<rparr>) = QueryMessage_serialize ts os q"
    for b by (simp add: QueryMessage_serialize_def Message_serialize_def)
  have s4: "PollMessage_serialize ts os (p\<lparr>ready_Poll := b\<rparr>) = PollMessage_serialize ts os p"
    for b by (simp add: PollMessage_serialize_def Message_serialize_def)
  have d1: "GetMessage_deserialize V ts ss rs g ist = Inl (e, g', rest) \<or>
      GetMessage_deserialize V ts ss rs g ist = Inr (g', rest) \<longrightarrow> ready_Get g' = ready_Get g"
    for ist e g' rest using keepsD [OF keeps_ready_Get] by blast
  have d2: "ScreenshotMessage_deserialize V ts c ist = Inl (e, c', rest) \<or>
      ScreenshotMessage_deserialize V ts c ist = Inr (c', rest) \<longrightarrow>
      ready_Screenshot c' = ready_Screenshot c"
    for ist e c' rest using keepsD [OF keeps_ready_Screenshot] by blast
  have d3: "QueryMessage_deserialize V ts q ist = Inl (e, q', rest) \<or>
      QueryMessage_deserialize V ts q ist = Inr (q', rest) \<longrightarrow> ready_Query q' = ready_Query q"
    for ist e q' rest using keepsD [OF keeps_ready_Query] by blast
  have d4: "PollMessage_deserialize V ts p ist = Inl (e, p', rest) \<or>
      PollMessage_deserialize V ts p ist = Inr (p', rest) \<longrightarrow> ready_Poll p' = ready_Poll p"
    for ist e p' rest using keepsD [OF keeps_ready_Poll] by blast
  from s1 s2 s3 s4 d1 d2 d3 d4 show ?thesis by blast
qed

text \<open>A truncated Get message, a Screenshot and a Query message that decode, and a Poll
  message of a foreign version: in all four outcomes the flag is the one from before.\<close>

theorem ready_flag_untouched_witness:
  "GetMessage_deserialize 1 uint64_ser int32_ser int32_ser
     \<lparr>protocol_version = 1, session_id = 0, message_id = 0, timestamp_send = 0,
      flags = GetFlags_of_bits 0, scene_settings = 0, refine_settings = 0, ready_Get = True\<rparr>
     [1, 0, 0, 0, 7, 0, 0, 0, 9, 0, 0, 0, 5, 0, 0, 0, 0, 0, 0, 0, 0xFF, 0x0F, 0, 0, 3, 0] =
   Inl (DecodeTruncated,
     \<lparr>protocol_version = 1, session_id = 7, message_id = 9, timestamp_send = 5,
      flags = GetFlags_of_bits 0xFFF, scene_settings = 0, refine_settings = 0, ready_Get = True\<rparr>,
     [3, 0]) \<and>
   ScreenshotMessage_deserialize 1 uint64_ser
     \<lparr>protocol_version = 1, session_id = 0, message_id = 0, timestamp_send = 0,
      ready_Screenshot = True\<rparr>
     [1, 0, 0, 0, 7, 0, 0, 0, 9, 0, 0, 0, 5, 0, 0, 0, 0, 0, 0, 0] =
   Inr (\<lparr>protocol_version = 1, session_id = 7, message_id = 9, timestamp_send = 5,
      ready_Screenshot = True\<rparr>, []) \<and>
   QueryMessage_deserialize 1 uint64_ser
     \<lparr>protocol_version = 1, session_id = 0, message_id = 0, timestamp_send = 0,
      query_type = 0, ready_Query = False, response = None :: nat option\<rparr>
     [1, 0, 0, 0, 7, 0, 0, 0, 9, 0, 0, 0, 5, 0, 0, 0, 0, 0, 0, 0, 2, 0, 0, 0] =
   Inr (\<lparr>protocol_version = 1, session_id = 7, message_id = 9, timestamp_send = 5,
      query_type = 2, ready_Query = False, response = None\<rparr>, []) \<and>
   PollMessage_deserialize 1 uint64_ser
     \<lparr>protocol_version = 1, session_id = 0, message_id = 0, timestamp_send = 0,
      poll_type = 0, ready_Poll = False\<rparr>
     [2, 0, 0, 0, 7, 0, 0, 0, 9, 0, 0, 0, 5, 0, 0, 0, 0, 0, 0, 0, 1, 0, 0, 0] =
   Inl (VersionMismatch,
     \<lparr>protocol_version = 2, session_id = 0, message_id = 0, timestamp_send = 0,
      poll_type = 0, ready_Poll = False\<rparr>,
     [7, 0, 0, 0, 9, 0, 0, 0, 5, 0, 0, 0, 0, 0, 0, 0, 1, 0, 0, 0]) \<and>
   ready_Get \<lparr>protocol_version = 1 :: int32, session_id = 7 :: int32, message_id = 9 :: int32,
      timestamp_send = 5 :: uint64_t, flags = GetFlags_of_bits 0xFFF, scene_settings = 0 :: int32,
      refine_settings = 0 :: int32, ready_Get = True\<rparr> = True"
proof -
  let ?g = "\<lparr>protocol_version = 1 :: int32, session_id = 0 :: int32, message_id = 0 :: int32,
      timestamp_send = 0 :: uint64_t, flags = GetFlags_of_bits 0, scene_settings = 0 :: int32,
      refine_settings = 0 :: int32, ready_Get = True\<rparr>"
  let ?g' = "\<lparr>protocol_version = 1 :: int32, session_id = 7 :: int32, message_id = 9 :: int32,
      timestamp_send = 5 :: uint64_t, flags = GetFlags_of_bits 0xFFF, scene_settings = 0 :: int32,
      refine_settings = 0 :: int32, ready_Get = True\<rparr>"
  let ?c = "\<lparr>protocol_version = 1 :: int32, session_id = 0 :: int32, message_id = 0 :: int32,
      timestamp_send = 0 :: uint64_t, ready_Screenshot = True\<rparr>"
  let ?c' = "\<lparr>protocol_version = 1 :: int32, session_id = 7 :: int32, message_id = 9 :: int32,
      timestamp_send = 5 :: uint64_t, ready_Screenshot = True\<rparr>"
  let ?q = "\<lparr>protocol_version = 1 :: int32, session_id = 0 :: int32, message_id = 0 :: int32,
      timestamp_send = 0 :: uint64_t, query_type = 0 :: int32, ready_Query = False,
      response = None :: nat option\<rparr>"
  let ?q' = "\<lparr>protocol_version = 1 :: int32, session_id = 7 :: int32, message_id = 9 :: int32,
      timestamp_send = 5 :: uint64_t, query_type = 2 :: int32, ready_Query = False,
      response = None :: nat option\<rparr>"
  let ?p = "\<lparr>protocol_version = 1 :: int32, session_id = 0 :: int32, message_id = 0 :: int32,
      timestamp_send = 0 :: uint64_t, poll_type = 0 :: int32, ready_Poll = False\<rparr>"
  let ?p' = "\<lparr>protocol_version = 2 :: int32, session_id = 0 :: int32, message_id = 0 :: int32,
      timestamp_send = 0 :: uint64_t, poll_type = 0 :: int32, ready_Poll = False\<rparr>"
  have hg: "GetMessage_deserialize 1 uint64_ser int32_ser int32_ser ?g
     [1, 0, 0, 0, 7, 0, 0, 0, 9, 0, 0, 0, 5, 0, 0, 0, 0, 0, 0, 0, 0xFF, 0x0F, 0, 0, 3, 0] =
     Inl (DecodeTruncated, ?g', [3, 0])"
    by (simp add: GetMessage_deserialize_def Message_deserialize_def read_field_def read_is_def
        int32_ser_def uint64_ser_def GetFlags_ser_def le_word32_def)
  have hc: "ScreenshotMessage_deserialize 1 uint64_ser ?c
     [1, 0, 0, 0, 7, 0, 0, 0, 9, 0, 0, 0, 5, 0, 0, 0, 0, 0, 0, 0] = Inr (?c', [])"
    by (simp add: ScreenshotMessage_deserialize_def Message_deserialize_def read_field_def
        read_is_def int32_ser_def uint64_ser_def le_word32_def)
  have hq: "QueryMessage_deserialize 1 uint64_ser ?q
     [1, 0, 0, 0, 7, 0, 0, 0, 9, 0, 0, 0, 5, 0, 0, 0, 0, 0, 0, 0, 2, 0, 0, 0] = Inr (?q', [])"
    by (simp add: QueryMessage_deserialize_def Message_deserialize_def read_field_def
        read_is_def int32_ser_def uint64_ser_def le_word32_def)
  have hp: "PollMessage_deserialize 1 uint64_ser ?p
     [2, 0, 0, 0, 7, 0, 0, 0, 9, 0, 0, 0, 5, 0, 0, 0, 0, 0, 0, 0, 1, 0, 0, 0] =
     Inl (VersionMismatch, ?p', [7, 0, 0, 0, 9, 0, 0, 0, 5, 0, 0, 0, 0, 0, 0, 0, 1, 0, 0, 0])"
    by (simp add: PollMessage_deserialize_def Message_deserialize_def read_field_def
        read_is_def int32_ser_def uint64_ser_def le_word32_def)
  have "ready_Get ?g' = ready_Get ?g \<and> ready_Screenshot ?c' = ready_Screenshot ?c \<and>
    ready_Query ?q' = ready_Query ?q \<and> ready_Poll ?p' = ready_Poll ?p"
    using ready_flag_untouched [where V = 1 and ts = uint64_ser and ss = int32_ser and rs = int32_ser
        and g = ?g and c = ?c and q = ?q and p = ?p]
      hg hc hq hp
    by blast
  with hg hc hq hp show ?thesis by simp
qed

text \<open>
  C7 as stated ends with: a message received over the network is never itself pending.
  A Query object that is pending (\<^verbatim>\<open>ready\<close> false) receives a well-formed Query message,
  sent by an object whose flag was true: the decode succeeds and the object that now
  holds the received message is still pending.
\<close>

theorem received_request_still_pending_counterexample:
  "QueryMessage_deserialize 1 uint64_ser
     \<lparr>protocol_version = 1, session_id = 0, message_id = 0, timestamp_send = 0,
      query_type = 0, ready_Query = False, response = None :: nat option\<rparr>
     (QueryMessage_serialize uint64_ser []
        \<lparr>protocol_version = 1, session_id = 7, message_id = 9, timestamp_send = 5,
         query_type = 1, ready_Query = True, response = None :: nat option\<rparr>) =
   Inr (\<lparr>protocol_version = 1, session_id = 7, message_id = 9, timestamp_send = 5,
         query_type = 1, ready_Query = False, response = None\<rparr>, [])"
  by (simp add: kind_serialize_bytes Message_serialize_bytes QueryMessage_deserialize_def
      Message_deserialize_def read_field_def read_is_def
      int32_ser_def uint64_ser_def le_bytes64_def le_bytes32_def le_word32_def)

section \<open>Enumerations\<close>

text \<open>
  C8. The payload of a Fence message, written after the envelope, is one value of the
  enumeration \<^verbatim>\<open>FenceType\<close>, four bytes long; \<^verbatim>\<open>SceneBegin\<close> has the value 1 (bytes
  01 00 00 00) and \<^verbatim>\<open>SceneEnd\<close> the value 2 (bytes 02 00 00 00), and reading the payload
  back stores the value written. Besides the default \<^verbatim>\<open>Unknown\<close> (value 0) the
  enumeration has exactly these two values.
\<close>

theorem Fence_payload_is_one_enum_value:
  "FenceMessage_serialize ts os m = Message_serialize ts os m @ le_bytes32 (type_Fence m) \<and>
   length (le_bytes32 (type_Fence m)) = 4 \<and>
   FenceType_value FenceType_SceneBegin = 1 \<and>
   FenceType_value FenceType_SceneEnd = 2 \<and>
   le_bytes32 (FenceType_value FenceType_SceneBegin) = [1, 0, 0, 0] \<and>
   le_bytes32 (FenceType_value FenceType_SceneEnd) = [2, 0, 0, 0] \<and>
   read_field int32_ser (\<lambda>v x. x\<lparr>type_Fence := v\<rparr>) tgt (le_bytes32 (type_Fence m) @ rest) =
     Inr (tgt\<lparr>type_Fence := type_Fence m\<rparr>, rest) \<and>
   (UNIV :: FenceType set) = {FenceType_Unknown, FenceType_SceneBegin, FenceType_SceneEnd} \<and>
   (UNIV :: FenceType set) - {FenceType_Unknown} = {FenceType_SceneBegin, FenceType_SceneEnd} \<and>
   FenceType_value FenceType_Unknown = 0"
proof -
  have u: "(UNIV :: FenceType set) = {FenceType_Unknown, FenceType_SceneBegin, FenceType_SceneEnd}"
  proof (rule set_eqI)
    fix x :: FenceType
    show "x \<in> UNIV \<longleftrightarrow> x \<in> {FenceType_Unknown, FenceType_SceneBegin, FenceType_SceneEnd}"
      by (cases x) simp_all
  qed
  have v: "(UNIV :: FenceType set) - {FenceType_Unknown} = {FenceType_SceneBegin, FenceType_SceneEnd}"
    unfolding u by auto
  have b: "le_bytes32 (FenceType_value FenceType_SceneBegin) = [1, 0, 0, 0]"
    "le_bytes32 (FenceType_value FenceType_SceneEnd) = [2, 0, 0, 0]"
    by (simp_all add: le_bytes32_def)
  show ?thesis
    using u v b by (simp add: kind_serialize_bytes)
qed

text \<open>
  C6, evaluated on the code. \<^verbatim>\<open>Message::Type\<close> has nine enumerators: \<^verbatim>\<open>Unknown\<close> and
  the eight kinds Get, Set, Delete, Fence, Text, Screenshot, Query and Response. There
  is no enumerator for Poll, although \<^verbatim>\<open>PollMessage\<close> is the ninth class derived from
  \<^verbatim>\<open>Message\<close>.
\<close>

theorem Type_enum_has_eight_kinds:
  "(UNIV :: Type set) =
     {Type_Unknown, Type_Get, Type_Set, Type_Delete, Type_Fence, Type_Text, Type_Screenshot,
      Type_Query, Type_Response} \<and>
   card ((UNIV :: Type set) - {Type_Unknown}) = 8 \<and>
   card (UNIV :: message_class set) = 9"
proof -
  have u: "(UNIV :: Type set) =
     {Type_Unknown, Type_Get, Type_Set, Type_Delete, Type_Fence, Type_Text, Type_Screenshot,
      Type_Query, Type_Response}"
  proof (rule set_eqI)
    fix x :: Type
    show "x \<in> UNIV \<longleftrightarrow> x \<in> {Type_Unknown, Type_Get, Type_Set, Type_Delete, Type_Fence, Type_Text,
      Type_Screenshot, Type_Query, Type_Response}"
      by (cases x) simp_all
  qed
  have c: "(UNIV :: message_class set) =
     {GetMessage, SetMessage, DeleteMessage, FenceMessage, TextMessage, ScreenshotMessage,
      QueryMessage, ResponseMessage, PollMessage}"
  proof (rule set_eqI)
    fix x :: message_class
    show "x \<in> UNIV \<longleftrightarrow> x \<in> {GetMessage, SetMessage, DeleteMessage, FenceMessage, TextMessage,
      ScreenshotMessage, QueryMessage, ResponseMessage, PollMessage}"
      by (cases x) simp_all
  qed
  have k: "card ((UNIV :: Type set) - {Type_Unknown}) = 8"
    unfolding u by simp
  have n: "card (UNIV :: message_class set) = 9"
    unfolding c by simp
  from u k n show ?thesis by simp
qed

section \<open>Size of the serialized form\<close>

lemma written_append [simp]: "written os (os @ bs) = length bs"
  by (simp add: written_def)

lemma measures_int32 [simp]: "measures ssize_int32 int32_ser v"
  by (simp add: measures_def ssize_int32_def int32_ser_def)

lemma measures_GetFlags [simp]: "measures ssize_GetFlags GetFlags_ser f"
  by (simp add: measures_def ssize_GetFlags_def GetFlags_ser_def)

lemma measures_string [simp]: "measures ssize_string string_ser s"
  by (simp add: measures_def ssize_string_def string_ser_def write_string_def)

lemma sum_list_sizes:
  "\<forall>x \<in> set xs. measures sz s x \<Longrightarrow>
   sum_list (map sz xs) = of_nat (length (concat (map (write_impl s) xs)))"
  by (induction xs) (simp_all add: measures_def)

lemma measures_vector:
  "\<forall>x \<in> set xs. measures sz s x \<Longrightarrow> measures (ssize_vector sz) (vector_ser s) xs"
  using sum_list_sizes [of xs sz s]
  by (simp add: measures_def ssize_vector_def vector_ser_def write_vector_def)

lemma Message_size:
  "measures sz_ts ts (timestamp_send m) \<Longrightarrow>
   Message_getSerializeSize sz_ts m = of_nat (written os (Message_serialize ts os m))"
  by (simp add: Message_getSerializeSize_def Message_serialize_bytes measures_def ssize_int32_def)

lemma written_kind:
  "written os (Message_serialize ts os m @ bs) = written os (Message_serialize ts os m) + length bs"
  by (simp add: Message_serialize_bytes written_def)

lemma unat_size: "w = of_nat n \<Longrightarrow> unat (w :: uint32_t) = n mod 2 ^ 32"
  by (simp add: unat_of_nat)

lemma GetMessage_size:
  "measures sz_ts ts (timestamp_send m) \<Longrightarrow> measures sz_ss ss (scene_settings m) \<Longrightarrow>
   measures sz_rs rs (refine_settings m) \<Longrightarrow>
   GetMessage_getSerializeSize sz_ts sz_ss sz_rs m =
     of_nat (written os (GetMessage_serialize ts ss rs os m))"
  by (simp add: GetMessage_getSerializeSize_def kind_serialize_bytes written_kind
      Message_size [of sz_ts ts m os] measures_def ssize_GetFlags_def GetFlags_ser_def)

lemma SetMessage_size:
  "measures sz_ts ts (timestamp_send m) \<Longrightarrow> measures sz_sc sc (scene m) \<Longrightarrow>
   SetMessage_getSerializeSize sz_ts sz_sc m = of_nat (written os (SetMessage_serialize ts sc os m))"
  by (simp add: SetMessage_getSerializeSize_def kind_serialize_bytes written_kind
      Message_size [of sz_ts ts m os] measures_def)

lemma DeleteMessage_size:
  assumes "measures sz_ts ts (timestamp_send m)"
    and "\<forall>x \<in> set (entities m) \<union> set (materials m) \<union> set (instances m). measures sz_id ident x"
  shows "DeleteMessage_getSerializeSize sz_ts sz_id m =
     of_nat (written os (DeleteMessage_serialize ts ident os m))"
proof -
  have v: "ssize_vector sz_id (entities m) = of_nat (length (write_vector ident (entities m)))"
    "ssize_vector sz_id (materials m) = of_nat (length (write_vector ident (materials m)))"
    "ssize_vector sz_id (instances m) = of_nat (length (write_vector ident (instances m)))"
    using assms(2) measures_vector [of _ sz_id ident]
    by (simp_all add: measures_def vector_ser_def)
  show ?thesis
    by (simp add: DeleteMessage_getSerializeSize_def kind_serialize_bytes written_kind
        Message_size [OF assms(1), of os] v)
qed

lemma FenceMessage_size:
  "measures sz_ts ts (timestamp_send m) \<Longrightarrow>
   FenceMessage_getSerializeSize sz_ts m = of_nat (written os (FenceMessage_serialize ts os m))"
  by (simp add: FenceMessage_getSerializeSize_def kind_serialize_bytes written_kind
      Message_size [of sz_ts ts m os] ssize_int32_def)

lemma TextMessage_size:
  "measures sz_ts ts (timestamp_send m) \<Longrightarrow>
   TextMessage_getSerializeSize sz_ts m = of_nat (written os (TextMessage_serialize ts os m))"
  by (simp add: TextMessage_getSerializeSize_def kind_serialize_bytes written_kind
      Message_size [of sz_ts ts m os] ssize_int32_def ssize_string_def write_string_def)

lemma ScreenshotMessage_size:
  "measures sz_ts ts (timestamp_send m) \<Longrightarrow>
   ScreenshotMessage_getSerializeSize sz_ts m =
     of_nat (written os (ScreenshotMessage_serialize ts os m))"
  by (simp add: ScreenshotMessage_getSerializeSize_def kind_serialize_bytes
      Message_size [of sz_ts ts m os])

lemma ResponseMessage_size:
  assumes "measures sz_ts ts (timestamp_send m)"
  shows "ResponseMessage_getSerializeSize sz_ts m =
     of_nat (written os (ResponseMessage_serialize ts os m))"
proof -
  have "measures (ssize_vector ssize_string) (vector_ser string_ser) (text_Response m)"
    by (rule measures_vector) simp
  then have v: "ssize_vector ssize_string (text_Response m) =
      of_nat (length (write_vector string_ser (text_Response m)))"
    by (simp add: measures_def vector_ser_def)
  show ?thesis
    by (simp add: ResponseMessage_getSerializeSize_def kind_serialize_bytes written_kind
        Message_size [OF assms, of os] v)
qed

lemma QueryMessage_size:
  "measures sz_ts ts (timestamp_send m) \<Longrightarrow>
   QueryMessage_getSerializeSize sz_ts m = of_nat (written os (QueryMessage_serialize ts os m))"
  by (simp add: QueryMessage_getSerializeSize_def kind_serialize_bytes written_kind
      Message_size [of sz_ts ts m os] ssize_int32_def)

lemma PollMessage_size:
  "measures sz_ts ts (timestamp_send m) \<Longrightarrow>
   PollMessage_getSerializeSize sz_ts m = of_nat (written os (PollMessage_serialize ts os m))"
  by (simp add: PollMessage_getSerializeSize_def kind_serialize_bytes written_kind
      Message_size [of sz_ts ts m os] ssize_int32_def)

text \<open>
  C3 (as amended). For the envelope and for each of the nine kinds,
  \<^verbatim>\<open>getSerializeSize\<close> returns the number of bytes that \<^verbatim>\<open>serialize\<close> adds to the stream,
  reduced modulo \<open>2\<^sup>3\<^sup>2\<close> since the result is a \<^verbatim>\<open>uint32_t\<close>: it is exactly the number
  of bytes written for every message whose serialized form is shorter than \<open>2\<^sup>3\<^sup>2\<close>
  bytes. The size functions of the undeclared types are parameters and have to agree
  with their serializers on the values the message holds.
\<close>

theorem getSerializeSize_is_byte_count_mod_2_32:
  "(measures sz_ts ts (timestamp_send m) \<longrightarrow>
      unat (Message_getSerializeSize sz_ts m) = written os (Message_serialize ts os m) mod 2 ^ 32) \<and>
   (measures sz_ts ts (timestamp_send g) \<longrightarrow> measures sz_ss ss (scene_settings g) \<longrightarrow>
      measures sz_rs rs (refine_settings g) \<longrightarrow>
      unat (GetMessage_getSerializeSize sz_ts sz_ss sz_rs g) =
        written os (GetMessage_serialize ts ss rs os g) mod 2 ^ 32) \<and>
   (measures sz_ts ts (timestamp_send s) \<longrightarrow> measures sz_sc sc (scene s) \<longrightarrow>
      unat (SetMessage_getSerializeSize sz_ts sz_sc s) =
        written os (SetMessage_serialize ts sc os s) mod 2 ^ 32) \<and>
   (measures sz_ts ts (timestamp_send d) \<longrightarrow>
      (\<forall>x \<in> set (entities d) \<union> set (materials d) \<union> set (instances d). measures sz_id ident x) \<longrightarrow>
      unat (DeleteMessage_getSerializeSize sz_ts sz_id d) =
        written os (DeleteMessage_serialize ts ident os d) mod 2 ^ 32) \<and>
   (measures sz_ts ts (timestamp_send f) \<longrightarrow>
      unat (FenceMessage_getSerializeSize sz_ts f) =
        written os (FenceMessage_serialize ts os f) mod 2 ^ 32) \<and>
   (measures sz_ts ts (timestamp_send t) \<longrightarrow>
      unat (TextMessage_getSerializeSize sz_ts t) =
        written os (TextMessage_serialize ts os t) mod 2 ^ 32) \<and>
   (measures sz_ts ts (timestamp_send c) \<longrightarrow>
      unat (ScreenshotMessage_getSerializeSize sz_ts c) =
        written os (ScreenshotMessage_serialize ts os c) mod 2 ^ 32) \<and>
   (measures sz_ts ts (timestamp_send r) \<longrightarrow>
      unat (ResponseMessage_getSerializeSize sz_ts r) =
        written os (ResponseMessage_serialize ts os r) mod 2 ^ 32) \<and>
   (measures sz_ts ts (timestamp_send q) \<longrightarrow>
      unat (QueryMessage_getSerializeSize sz_ts q) =
        written os (QueryMessage_serialize ts os q) mod 2 ^ 32) \<and>
   (measures sz_ts ts (timestamp_send p) \<longrightarrow>
      unat (PollMessage_getSerializeSize sz_ts p) =
        written os (PollMessage_serialize ts os p) mod 2 ^ 32)"
  by (intro conjI impI unat_size Message_size GetMessage_size SetMessage_size DeleteMessage_size
      FenceMessage_size TextMessage_size ScreenshotMessage_size ResponseMessage_size
      QueryMessage_size PollMessage_size)

text \<open>One message of each kind, appended to a stream that already holds one byte.\<close>

theorem getSerializeSize_is_byte_count_mod_2_32_witness:
  "unat (Message_getSerializeSize (\<lambda>v :: uint64_t. 8)
      \<lparr>protocol_version = 1, session_id = 7, message_id = 9, timestamp_send = 5\<rparr>) = 20 \<and>
   written [0xEE] (Message_serialize uint64_ser [0xEE]
      \<lparr>protocol_version = 1, session_id = 7, message_id = 9, timestamp_send = 5\<rparr>) = 20 \<and>
   unat (GetMessage_getSerializeSize (\<lambda>v :: uint64_t. 8) ssize_int32 ssize_int32
      \<lparr>protocol_version = 1, session_id = 7, message_id = 9, timestamp_send = 5,
       flags = GetFlags_of_bits 0xFFF, scene_settings = 3, refine_settings = 4,
       ready_Get = True\<rparr>) = 32 \<and>
   written [0xEE] (GetMessage_serialize uint64_ser int32_ser int32_ser [0xEE]
      \<lparr>protocol_version = 1, session_id = 7, message_id = 9, timestamp_send = 5,
       flags = GetFlags_of_bits 0xFFF, scene_settings = 3, refine_settings = 4,
       ready_Get = True\<rparr>) = 32 \<and>
   unat (SetMessage_getSerializeSize (\<lambda>v :: uint64_t. 8) ssize_string
      \<lparr>protocol_version = 1, session_id = 7, message_id = 9, timestamp_send = 5,
       scene = [0x10, 0x20]\<rparr>) = 26 \<and>
   written [0xEE] (SetMessage_serialize uint64_ser string_ser [0xEE]
      \<lparr>protocol_version = 1, session_id = 7, message_id = 9, timestamp_send = 5,
       scene = [0x10, 0x20]\<rparr>) = 26 \<and>
   unat (DeleteMessage_getSerializeSize (\<lambda>v :: uint64_t. 8) ssize_int32
      \<lparr>protocol_version = 1, session_id = 7, message_id = 9, timestamp_send = 5,
       entities = [], materials = [4, 4], instances = [2, 1]\<rparr>) = 48 \<and>
   written [0xEE] (DeleteMessage_serialize uint64_ser int32_ser [0xEE]
      \<lparr>protocol_version = 1, session_id = 7, message_id = 9, timestamp_send = 5,
       entities = [], materials = [4, 4], instances = [2, 1]\<rparr>) = 48 \<and>
   unat (FenceMessage_getSerializeSize (\<lambda>v :: uint64_t. 8)
      \<lparr>protocol_version = 1, session_id = 7, message_id = 9, timestamp_send = 5,
       type_Fence = 2\<rparr>) = 24 \<and>
   written [0xEE] (FenceMessage_serialize uint64_ser [0xEE]
      \<lparr>protocol_version = 1, session_id = 7, message_id = 9, timestamp_send = 5,
       type_Fence = 2\<rparr>) = 24 \<and>
   unat (TextMessage_getSerializeSize (\<lambda>v :: uint64_t. 8)
      \<lparr>protocol_version = 1, session_id = 7, message_id = 9, timestamp_send = 5,
       text_Text = [0x48, 0x69], type_Text = 2\<rparr>) = 30 \<and>
   written [0xEE] (TextMessage_serialize uint64_ser [0xEE]
      \<lparr>protocol_version = 1, session_id = 7, message_id = 9, timestamp_send = 5,
       text_Text = [0x48, 0x69], type_Text = 2\<rparr>) = 30 \<and>
   unat (ScreenshotMessage_getSerializeSize (\<lambda>v :: uint64_t. 8)
      \<lparr>protocol_version = 1, session_id = 7, message_id = 9, timestamp_send = 5,
       ready_Screenshot = False\<rparr>) = 20 \<and>
   written [0xEE] (ScreenshotMessage_serialize uint64_ser [0xEE]
      \<lparr>protocol_version = 1, session_id = 7, message_id = 9, timestamp_send = 5,
       ready_Screenshot = False\<rparr>) = 20 \<and>
   unat (ResponseMessage_getSerializeSize (\<lambda>v :: uint64_t. 8)
      \<lparr>protocol_version = 1, session_id = 7, message_id = 9, timestamp_send = 5,
       text_Response = [[0x61], [], [0x62, 0x63]]\<rparr>) = 39 \<and>
   written [0xEE] (ResponseMessage_serialize uint64_ser [0xEE]
      \<lparr>protocol_version = 1, session_id = 7, message_id = 9, timestamp_send = 5,
       text_Response = [[0x61], [], [0x62, 0x63]]\<rparr>) = 39 \<and>
   unat (QueryMessage_getSerializeSize (\<lambda>v :: uint64_t. 8)
      \<lparr>protocol_version = 1, session_id = 7, message_id = 9, timestamp_send = 5,
       query_type = 3, ready_Query = True, response = None :: nat option\<rparr>) = 24 \<and>
   written [0xEE] (QueryMessage_serialize uint64_ser [0xEE]
      \<lparr>protocol_version = 1, session_id = 7, message_id = 9, timestamp_send = 5,
       query_type = 3, ready_Query = True, response = None :: nat option\<rparr>) = 24 \<and>
   unat (PollMessage_getSerializeSize (\<lambda>v :: uint64_t. 8)
      \<lparr>protocol_version = 1, session_id = 7, message_id = 9, timestamp_send = 5,
       poll_type = 1, ready_Poll = True\<rparr>) = 24 \<and>
   written [0xEE] (PollMessage_serialize uint64_ser [0xEE]
      \<lparr>protocol_version = 1, session_id = 7, message_id = 9, timestamp_send = 5,
       poll_type = 1, ready_Poll = True\<rparr>) = 24"
proof -
  have w: "written [0xEE] (Message_serialize uint64_ser [0xEE] x) = 20" for x :: "(uint64_t, 'z) Message_scheme"
    by (simp add: Message_serialize_bytes written_def uint64_ser_def)
  have ws:
    "written [0xEE] (Message_serialize uint64_ser [0xEE]
      \<lparr>protocol_version = 1, session_id = 7, message_id = 9, timestamp_send = 5\<rparr>) = 20"
    "written [0xEE] (GetMessage_serialize uint64_ser int32_ser int32_ser [0xEE]
      \<lparr>protocol_version = 1, session_id = 7, message_id = 9, timestamp_send = 5,
       flags = GetFlags_of_bits 0xFFF, scene_settings = 3, refine_settings = 4,
       ready_Get = True\<rparr>) = 32"
    "written [0xEE] (SetMessage_serialize uint64_ser string_ser [0xEE]
      \<lparr>protocol_version = 1, session_id = 7, message_id = 9, timestamp_send = 5,
       scene = [0x10, 0x20]\<rparr>) = 26"
    "written [0xEE] (DeleteMessage_serialize uint64_ser int32_ser [0xEE]
      \<lparr>protocol_version = 1, session_id = 7, message_id = 9, timestamp_send = 5,
       entities = [], materials = [4, 4], instances = [2, 1]\<rparr>) = 48"
    "written [0xEE] (FenceMessage_serialize uint64_ser [0xEE]
      \<lparr>protocol_version = 1, session_id = 7, message_id = 9, timestamp_send = 5,
       type_Fence = 2\<rparr>) = 24"
    "written [0xEE] (TextMessage_serialize uint64_ser [0xEE]
      \<lparr>protocol_version = 1, session_id = 7, message_id = 9, timestamp_send = 5,
       text_Text = [0x48, 0x69], type_Text = 2\<rparr>) = 30"
    "written [0xEE] (ScreenshotMessage_serialize uint64_ser [0xEE]
      \<lparr>protocol_version = 1, session_id = 7, message_id = 9, timestamp_send = 5,
       ready_Screenshot = False\<rparr>) = 20"
    "written [0xEE] (ResponseMessage_serialize uint64_ser [0xEE]
      \<lparr>protocol_version = 1, session_id = 7, message_id = 9, timestamp_send = 5,
       text_Response = [[0x61], [], [0x62, 0x63]]\<rparr>) = 39"
    "written [0xEE] (QueryMessage_serialize uint64_ser [0xEE]
      \<lparr>protocol_version = 1, session_id = 7, message_id = 9, timestamp_send = 5,
       query_type = 3, ready_Query = True, response = None :: nat option\<rparr>) = 24"
    "written [0xEE] (PollMessage_serialize uint64_ser [0xEE]
      \<lparr>protocol_version = 1, session_id = 7, message_id = 9, timestamp_send = 5,
       poll_type = 1, ready_Poll = True\<rparr>) = 24"
    by (simp_all add: kind_serialize_bytes written_kind w GetFlags_ser_def int32_ser_def
        string_ser_def write_string_def write_vector_def)
  have ts: "measures (\<lambda>v. 8) uint64_ser v" for v
    by (simp add: measures_def uint64_ser_def)
  show ?thesis
    using getSerializeSize_is_byte_count_mod_2_32 [where os = "[0xEE]" and ts = uint64_ser
      and sz_ts = "\<lambda>v. 8" and ss = int32_ser and sz_ss = ssize_int32
      and rs = int32_ser and sz_rs = ssize_int32 and sc = string_ser and sz_sc = ssize_string
      and ident = int32_ser and sz_id = ssize_int32
      and m = "\<lparr>protocol_version = 1, session_id = 7, message_id = 9, timestamp_send = 5\<rparr>"
      and g = "\<lparr>protocol_version = 1, session_id = 7, message_id = 9, timestamp_send = 5,
         flags = GetFlags_of_bits 0xFFF, scene_settings = 3, refine_settings = 4,
         ready_Get = True\<rparr>"
      and s = "\<lparr>protocol_version = 1, session_id = 7, message_id = 9, timestamp_send = 5,
         scene = [0x10, 0x20]\<rparr>"
      and d = "\<lparr>protocol_version = 1, session_id = 7, message_id = 9, timestamp_send = 5,
         entities = [], materials = [4, 4], instances = [2, 1]\<rparr>"
      and f = "\<lparr>protocol_version = 1, session_id = 7, message_id = 9, timestamp_send = 5,
         type_Fence = 2\<rparr>"
      and t = "\<lparr>protocol_version = 1, session_id = 7, message_id = 9, timestamp_send = 5,
         text_Text = [0x48, 0x69], type_Text = 2\<rparr>"
      and c = "\<lparr>protocol_version = 1, session_id = 7, message_id = 9, timestamp_send = 5,
         ready_Screenshot = False\<rparr>"
      and r = "\<lparr>protocol_version = 1, session_id = 7, message_id = 9, timestamp_send = 5,
         text_Response = [[0x61], [], [0x62, 0x63]]\<rparr>"
      and q = "\<lparr>protocol_version = 1, session_id = 7, message_id = 9, timestamp_send = 5,
         query_type = 3, ready_Query = True, response = None :: nat option\<rparr>"
      and p = "\<lparr>protocol_version = 1, session_id = 7, message_id = 9, timestamp_send = 5,
         poll_type = 1, ready_Poll = True\<rparr>"]
    by (simp add: ts ws)
qed

text \<open>
  C3 as stated covers every message. A Text message whose text is 4294967268 bytes long
  is written as 20 + 4 + 4294967268 + 4 = \<open>2\<^sup>3\<^sup>2\<close> bytes, a number no \<^verbatim>\<open>uint32_t\<close> holds:
  \<^verbatim>\<open>getSerializeSize\<close> returns 0.
\<close>

theorem getSerializeSize_wraps_counterexample:
  "written [] (TextMessage_serialize uint64_ser []
     \<lparr>protocol_version = 1, session_id = 0, message_id = 0, timestamp_send = 0,
      text_Text = replicate 4294967268 0, type_Text = 0\<rparr>) = 4294967296 \<and>
   unat (TextMessage_getSerializeSize (\<lambda>v. 8)
     \<lparr>protocol_version = 1, session_id = 0, message_id = 0, timestamp_send = 0 :: uint64_t,
      text_Text = replicate 4294967268 0, type_Text = 0\<rparr>) = 0"
  by (simp add: kind_serialize_bytes Message_serialize_bytes written_def uint64_ser_def
      write_string_def TextMessage_getSerializeSize_def Message_getSerializeSize_def
      ssize_int32_def ssize_string_def)

end
